theory Spec2Isabelle
  imports Main
begin

section \<open>JavaScript values, exceptions and the page\<close>

text \<open>
  Event data and search parameters are free-form JavaScript values. Numbers are integers
  here: every number the tracker computes (timestamps in milliseconds, counters, durations
  after \<open>Math.floor\<close>) is one.
\<close>

datatype jsval =
    Undefined
  | Null
  | Num int
  | Str string
  | Bool bool
  | Obj "(string \<times> jsval) list"

type_synonym obj = "(string \<times> jsval) list"

text \<open>JavaScript truthiness, as used by \<open>!x\<close>, \<open>x || y\<close> and \<open>if (x)\<close>.\<close>

fun truthy :: "jsval \<Rightarrow> bool" where
  "truthy Undefined = False"
| "truthy Null = False"
| "truthy (Num n) = (n \<noteq> 0)"
| "truthy (Str s) = (s \<noteq> [])"
| "truthy (Bool b) = b"
| "truthy (Obj kvs) = True"

definition js_or :: "jsval \<Rightarrow> jsval \<Rightarrow> jsval" where
  "js_or a b = (if truthy a then a else b)"

text \<open>Property read \<open>o.k\<close> and \<open>o?.k\<close> on an object literal: a missing key reads as undefined.\<close>

definition obj_get :: "obj \<Rightarrow> string \<Rightarrow> jsval" where
  "obj_get kvs k = (case map_of kvs k of None \<Rightarrow> Undefined | Some v \<Rightarrow> v)"

text \<open>Object spread \<open>{...a, ...b}\<close>: a key of \<open>b\<close> overwrites the same key of \<open>a\<close> in place,
  a new key is added at the end. (JavaScript lists keys that are array indices, such as
  \<open>"7"\<close>, before all others; that reordering is not reproduced, and nothing below depends
  on the order of keys in spread event data.)\<close>

fun obj_set :: "obj \<Rightarrow> string \<Rightarrow> jsval \<Rightarrow> obj" where
  "obj_set [] k v = [(k, v)]"
| "obj_set ((k', v') # kvs) k v = (if k' = k then (k, v) # kvs else (k', v') # obj_set kvs k v)"

definition obj_spread :: "obj \<Rightarrow> obj \<Rightarrow> obj" where
  "obj_spread a b = fold (\<lambda>(k, v) acc. obj_set acc k v) b a"

datatype exn =
    SecurityError
  | QuotaExceededError
  | SyntaxError
  | TypeError
  | NetworkFailure

text \<open>
  A Web Storage area is usable, full (\<open>setItem\<close> throws, reads work) or blocked (every
  access throws, as in a browser with storage disabled).
\<close>

datatype storage_mode = Available | QuotaFull | Blocked

text \<open>
  The string held under a storage key that the code hands to \<open>JSON.parse\<close>: either text
  that \<open>JSON.parse\<close> rejects (the empty string is such a text), or the JSON text of a value
  of the TypeScript type the code reads it as. \<open>JSON.stringify\<close> writes the second kind.
  Text that parses to a value of another shape is not among the states of a page here; what
  \<open>getSessionId\<close> does with a parsed value that is not an object is defined separately,
  after \<open>getSession\<close>.
\<close>

datatype 'a cell = Garbage string | Json 'a

record ConsentStatus =
  necessary :: bool
  analytics :: bool
  marketing :: bool
  consent_timestamp :: string
  version :: string

text \<open>
  \<open>created_at\<close> and \<open>last_activity_at\<close> are ISO strings in the source, written by
  \<open>toISOString\<close> and read back by \<open>new Date(s).getTime()\<close>; the record holds the
  millisecond count that round trip preserves.
\<close>

record SessionData =
  session_id :: string
  visitor_id :: string
  created_at :: int
  last_activity_at :: int
  page_views :: int

record SearchTrackingData =
  listing_type :: jsval
  timestamp :: int
  location :: jsval
  postcode :: jsval
  min_price :: jsval
  max_price :: jsval
  bedrooms :: jsval
  bathrooms :: jsval
  property_type :: jsval
  filters :: jsval
  filters_count :: jsval
  source_page :: jsval
  source_component :: jsval

record EventData =
  event_type :: string
  ev_session_id :: string
  ev_visitor_id :: string
  page_url :: string
  page_title :: string
  referrer :: "string option"
  property_id :: "jsval option"
  article_id :: "jsval option"
  event_data :: "obj option"

record RequiredTrackerConfig =
  apiUrl :: string
  apiKey :: string
  trackingEnabled :: bool
  debug :: bool

text \<open>The fields of the \<open>StratosTracker\<close> object.\<close>

record tracker =
  config :: RequiredTrackerConfig
  pageLoadTime :: int
  propertyViewStartTime :: int
  blogViewStartTime :: int
  maxScrollDepth :: int
  sessionStartTime :: int
  isInitialized :: bool
  consentGiven :: bool

text \<open>
  What leaves the page: a \<open>fetch\<close> POST of an event (URL, \<open>x-api-key\<close> header, body), a
  beacon (URL, the key sent as the \<open>api_key\<close> query parameter, body), and the
  toggle-favourite POST (URL, key, visitor id, session id, property id, source).
\<close>

datatype request =
    FetchEvent string string EventData
  | BeaconEvent string string EventData
  | FetchToggleFavourite string string string string string string

text \<open>
  The closures the tracking files register as DOM listeners. A property handler captures the
  config and the property id it was created with; the start-time getter it captures is the
  facade's \<open>() => this.propertyViewStartTime\<close>, the only getter the repository passes. A blog
  handler captures the config, the article id and, through the getters the facade passes,
  the closure variable \<open>maxScrollDepth\<close> of one \<open>setupScrollDepthTracking\<close> call, named
  here by the number of that call.
\<close>

datatype handler =
    PropertyDurationHandler RequiredTrackerConfig string
  | PropertyVisibilityHandler RequiredTrackerConfig string
  | ScrollHandler RequiredTrackerConfig string nat
  | BlogDurationHandler RequiredTrackerConfig string nat
  | BlogVisibilityHandler RequiredTrackerConfig string nat

datatype event_name = Beforeunload | Pagehide | Visibilitychange | Scroll

text \<open>
  The state one page touches. \<open>clock\<close> is \<open>Date.now()\<close>; one call of a tracker function
  reads one instant. \<open>uuid_source\<close> and \<open>uuid_drawn\<close> stand for the random generator behind
  \<open>generateUUID\<close>: the \<open>n\<close>-th draw returns \<open>uuid_source n\<close>. \<open>net\<close> is the list of requests
  issued so far, \<open>listeners\<close> the registered DOM listeners in registration order, and
  \<open>visibility_hidden\<close> is \<open>document.visibilityState === 'hidden'\<close>. The three
  \<open>property...\<close> fields are the variables at the top of the property tracking file.
  \<open>scroll_closures\<close> holds the \<open>maxScrollDepth\<close> variable of each
  \<open>setupScrollDepthTracking\<close> call, and \<open>page_scrollPercent\<close> is the percentage a scroll
  listener computes from the current scroll position.
\<close>

record world =
  clock :: int
  ls_mode :: storage_mode
  ls_stratos_cookie_consent :: "ConsentStatus cell option"
  ls_sr_session :: "SessionData cell option"
  ls_sr_visitor :: "string option"
  ss_mode :: storage_mode
  ss_stratos_pending_search :: "SearchTrackingData cell option"
  tempVisitorId :: "string option"
  tempSession :: "SessionData option"
  uuid_source :: "nat \<Rightarrow> string"
  uuid_drawn :: nat
  has_sendBeacon :: bool
  href :: string
  pathname :: string
  title :: string
  doc_referrer :: string
  net :: "request list"
  listeners :: "(event_name \<times> handler) list"
  visibility_hidden :: bool
  currentPropertyDurationTracking :: "string option"
  propertyDurationHandler :: "handler option"
  propertyVisibilityHandler :: "handler option"
  scroll_closures :: "int list"
  page_scrollPercent :: int
  StratosTracker :: tracker
  window_StratosTracker :: bool

section \<open>Computations that may throw\<close>

text \<open>
  A JavaScript call is a function from the world to an outcome and a new world; the outcome
  is \<open>Inl e\<close> when the call throws \<open>e\<close>. Effects made before a throw stay.
\<close>

type_synonym 'a js = "world \<Rightarrow> (exn + 'a) \<times> world"

definition js_return :: "'a \<Rightarrow> 'a js" where
  "js_return x = (\<lambda>w. (Inr x, w))"

definition js_throw :: "exn \<Rightarrow> 'a js" where
  "js_throw e = (\<lambda>w. (Inl e, w))"

definition js_bind :: "'a js \<Rightarrow> ('a \<Rightarrow> 'b js) \<Rightarrow> 'b js" where
  "js_bind m f = (\<lambda>w. case m w of (Inl e, w') \<Rightarrow> (Inl e, w') | (Inr x, w') \<Rightarrow> f x w')"

definition js_try :: "'a js \<Rightarrow> (exn \<Rightarrow> 'a js) \<Rightarrow> 'a js" where
  "js_try m h = (\<lambda>w. case m w of (Inl e, w') \<Rightarrow> h e w' | (Inr x, w') \<Rightarrow> (Inr x, w'))"

definition js_gets :: "(world \<Rightarrow> 'a) \<Rightarrow> 'a js" where
  "js_gets f = (\<lambda>w. (Inr (f w), w))"

definition js_modify :: "(world \<Rightarrow> world) \<Rightarrow> unit js" where
  "js_modify f = (\<lambda>w. (Inr (), f w))"

subsection \<open>Web Storage and JSON\<close>

definition getItem :: "(world \<Rightarrow> storage_mode) \<Rightarrow> (world \<Rightarrow> 'a option) \<Rightarrow> 'a option js" where
  "getItem mode slot = (\<lambda>w. if mode w = Blocked then (Inl SecurityError, w) else (Inr (slot w), w))"

definition setItem :: "(world \<Rightarrow> storage_mode) \<Rightarrow> (world \<Rightarrow> world) \<Rightarrow> unit js" where
  "setItem mode upd =
     (\<lambda>w. case mode w of
             Blocked \<Rightarrow> (Inl SecurityError, w)
           | QuotaFull \<Rightarrow> (Inl QuotaExceededError, w)
           | Available \<Rightarrow> (Inr (), upd w))"

definition removeItem :: "(world \<Rightarrow> storage_mode) \<Rightarrow> (world \<Rightarrow> world) \<Rightarrow> unit js" where
  "removeItem mode upd = (\<lambda>w. if mode w = Blocked then (Inl SecurityError, w) else (Inr (), upd w))"

definition JSON_parse :: "'a cell \<Rightarrow> 'a js" where
  "JSON_parse c = (case c of Garbage s \<Rightarrow> js_throw SyntaxError | Json v \<Rightarrow> js_return v)"

text \<open>\<open>!stored\<close> for the result of \<open>getItem\<close>: null and the empty string are falsy.\<close>

fun falsy_item :: "'a cell option \<Rightarrow> bool" where
  "falsy_item None = True"
| "falsy_item (Some (Garbage s)) = (s = [])"
| "falsy_item (Some (Json v)) = False"

fun falsy_string :: "string option \<Rightarrow> bool" where
  "falsy_string None = True"
| "falsy_string (Some s) = (s = [])"

section \<open>Consent store (tracking/core/consent)\<close>

definition hasAnalyticsConsent :: "bool js" where
  "hasAnalyticsConsent =
     js_try
       (js_bind (getItem ls_mode ls_stratos_cookie_consent) (\<lambda>stored.
          case stored of
            None \<Rightarrow> js_return False
          | Some text \<Rightarrow>
              if falsy_item stored then js_return False
              else js_bind (JSON_parse text) (\<lambda>consent. js_return (analytics consent = True))))
       (\<lambda>error. js_return False)"

definition hasMarketingConsent :: "bool js" where
  "hasMarketingConsent =
     js_try
       (js_bind (getItem ls_mode ls_stratos_cookie_consent) (\<lambda>stored.
          case stored of
            None \<Rightarrow> js_return False
          | Some text \<Rightarrow>
              if falsy_item stored then js_return False
              else js_bind (JSON_parse text) (\<lambda>consent. js_return (marketing consent = True))))
       (\<lambda>error. js_return False)"

definition hasConsentDecision :: "bool js" where
  "hasConsentDecision =
     js_try
       (js_bind (getItem ls_mode ls_stratos_cookie_consent) (\<lambda>stored. js_return (stored \<noteq> None)))
       (\<lambda>error. js_return False)"

definition getConsentStatus :: "ConsentStatus option js" where
  "getConsentStatus =
     js_try
       (js_bind (getItem ls_mode ls_stratos_cookie_consent) (\<lambda>stored.
          case stored of
            None \<Rightarrow> js_return None
          | Some text \<Rightarrow>
              if falsy_item stored then js_return None
              else js_bind (JSON_parse text) (\<lambda>consent. js_return (Some consent))))
       (\<lambda>error. js_return None)"

section \<open>Identity and session (tracking/session)\<close>

definition SESSION_TIMEOUT_MS :: int where
  "SESSION_TIMEOUT_MS = 30 * 60 * 1000"

text \<open>Both branches of \<open>generateUUID\<close> are random draws; one draw advances the generator.\<close>

definition generateUUID :: "string js" where
  "generateUUID = (\<lambda>w. (Inr (uuid_source w (uuid_drawn w)), w\<lparr>uuid_drawn := Suc (uuid_drawn w)\<rparr>))"

text \<open>\<open>if (!tempVisitorId) { tempVisitorId = generateUUID() }; return tempVisitorId\<close>\<close>

definition ensureTempVisitorId :: "string js" where
  "ensureTempVisitorId =
     js_bind (js_gets tempVisitorId) (\<lambda>t.
       case t of
         Some v \<Rightarrow>
           if falsy_string t then
             js_bind generateUUID (\<lambda>u.
             js_bind (js_modify (\<lambda>w. w\<lparr>tempVisitorId := Some u\<rparr>)) (\<lambda>_. js_return u))
           else js_return v
       | None \<Rightarrow>
           js_bind generateUUID (\<lambda>u.
           js_bind (js_modify (\<lambda>w. w\<lparr>tempVisitorId := Some u\<rparr>)) (\<lambda>_. js_return u)))"

definition getVisitorId :: "string js" where
  "getVisitorId =
     js_bind hasAnalyticsConsent (\<lambda>consent.
       if \<not> consent then ensureTempVisitorId
       else
         js_try
           (js_bind (getItem ls_mode ls_sr_visitor) (\<lambda>visitorId.
              if falsy_string visitorId then
                js_bind (js_gets tempVisitorId) (\<lambda>t.
                js_bind (case t of
                           Some v \<Rightarrow> if falsy_string t then generateUUID else js_return v
                         | None \<Rightarrow> generateUUID) (\<lambda>visitorId'.
                js_bind (setItem ls_mode (\<lambda>w. w\<lparr>ls_sr_visitor := Some visitorId'\<rparr>)) (\<lambda>_.
                js_return visitorId')))
              else
                (case visitorId of Some v \<Rightarrow> js_return v | None \<Rightarrow> js_throw TypeError)))
           (\<lambda>error. ensureTempVisitorId))"

definition clearVisitorId :: "unit js" where
  "clearVisitorId =
     js_bind (js_modify (\<lambda>w. w\<lparr>tempVisitorId := None\<rparr>)) (\<lambda>_.
     js_try (removeItem ls_mode (\<lambda>w. w\<lparr>ls_sr_visitor := None\<rparr>)) (\<lambda>error. js_return ()))"

definition getStoredSession :: "SessionData option js" where
  "getStoredSession =
     js_bind hasAnalyticsConsent (\<lambda>consent.
       if \<not> consent then js_gets tempSession
       else
         js_try
           (js_bind (getItem ls_mode ls_sr_session) (\<lambda>stored.
              case stored of
                None \<Rightarrow> js_return None
              | Some text \<Rightarrow>
                  if falsy_item stored then js_return None
                  else js_bind (JSON_parse text) (\<lambda>session. js_return (Some session))))
           (\<lambda>error. js_return None))"

definition saveSession :: "SessionData \<Rightarrow> unit js" where
  "saveSession session =
     js_bind hasAnalyticsConsent (\<lambda>consent.
       if \<not> consent then js_modify (\<lambda>w. w\<lparr>tempSession := Some session\<rparr>)
       else
         js_try
           (js_bind (setItem ls_mode (\<lambda>w. w\<lparr>ls_sr_session := Some (Json session)\<rparr>)) (\<lambda>_.
            js_modify (\<lambda>w. w\<lparr>tempSession := Some session\<rparr>)))
           (\<lambda>error. js_return ()))"

definition isSessionExpired :: "SessionData \<Rightarrow> bool js" where
  "isSessionExpired session =
     js_bind (js_gets clock) (\<lambda>now.
       let lastActivity = last_activity_at session;
           timeSinceActivity = now - lastActivity
       in js_return (timeSinceActivity > SESSION_TIMEOUT_MS))"

definition createNewSession :: "SessionData js" where
  "createNewSession =
     js_bind (js_gets clock) (\<lambda>now.
     js_bind getVisitorId (\<lambda>visitorId.
     js_bind generateUUID (\<lambda>sid.
       let session = \<lparr> session_id = sid, visitor_id = visitorId, created_at = now,
                       last_activity_at = now, page_views = 0 \<rparr>
       in js_bind (saveSession session) (\<lambda>_. js_return session))))"

definition updateSessionActivity :: "SessionData \<Rightarrow> SessionData js" where
  "updateSessionActivity session =
     js_bind (js_gets clock) (\<lambda>now.
       let session' = session\<lparr>last_activity_at := now, page_views := page_views session + 1\<rparr>
       in js_bind (saveSession session') (\<lambda>_. js_return session'))"

definition getSessionId :: "string js" where
  "getSessionId =
     js_bind getStoredSession (\<lambda>stored.
       case stored of
         None \<Rightarrow> js_bind createNewSession (\<lambda>s. js_return (session_id s))
       | Some session \<Rightarrow>
           js_bind (isSessionExpired session) (\<lambda>expired.
             if expired then js_bind createNewSession (\<lambda>s. js_return (session_id s))
             else js_bind (updateSessionActivity session) (\<lambda>_. js_return (session_id session))))"

definition getSession :: "SessionData option js" where
  "getSession =
     js_bind getStoredSession (\<lambda>stored.
       case stored of
         None \<Rightarrow> js_bind createNewSession (\<lambda>s. js_return (Some s))
       | Some session \<Rightarrow>
           js_bind (isSessionExpired session) (\<lambda>expired.
             if expired then js_bind createNewSession (\<lambda>s. js_return (Some s))
             else js_bind (updateSessionActivity session) (\<lambda>s. js_return (Some s))))"

subsection \<open>A session text that is not an object\<close>






definition clearSession :: "unit js" where
  "clearSession =
     js_bind (js_modify (\<lambda>w. w\<lparr>tempSession := None\<rparr>)) (\<lambda>_.
     js_try (removeItem ls_mode (\<lambda>w. w\<lparr>ls_sr_session := None\<rparr>)) (\<lambda>error. js_return ()))"

definition clearAllTrackingData :: "unit js" where
  "clearAllTrackingData =
     js_bind (js_modify (\<lambda>w. w\<lparr>tempVisitorId := None, tempSession := None\<rparr>)) (\<lambda>_.
     js_try
       (js_bind (removeItem ls_mode (\<lambda>w. w\<lparr>ls_sr_session := None\<rparr>)) (\<lambda>_.
        removeItem ls_mode (\<lambda>w. w\<lparr>ls_sr_visitor := None\<rparr>)))
       (\<lambda>error. js_return ()))"

definition initSession :: "unit js" where
  "initSession =
     js_bind hasAnalyticsConsent (\<lambda>consent.
       if \<not> consent then js_return ()
       else js_bind getSession (\<lambda>_. js_return ()))"

section \<open>Transport and event builder (tracking/core/api)\<close>

text \<open>
  \<open>sendEvent\<close> is asynchronous and never awaited by its callers: the request is issued when
  it is called, the response only reaches the console, and every failure is caught inside.
\<close>

definition sendEvent :: "RequiredTrackerConfig \<Rightarrow> EventData \<Rightarrow> unit js" where
  "sendEvent cfg payload =
     js_try
       (let url = apiUrl cfg @ ''/functions/v1/track-event''
        in js_modify (\<lambda>w. w\<lparr>net := net w @ [FetchEvent url (apiKey cfg) payload]\<rparr>))
       (\<lambda>error. js_return ())"

text \<open>\<open>if (eventData?.k) payload.k = eventData.k\<close>\<close>

definition promoted :: "obj option \<Rightarrow> string \<Rightarrow> jsval option" where
  "promoted eventData k =
     (case eventData of
        None \<Rightarrow> None
      | Some d \<Rightarrow> if truthy (obj_get d k) then Some (obj_get d k) else None)"

definition sendBeacon :: "RequiredTrackerConfig \<Rightarrow> string \<Rightarrow> obj option \<Rightarrow> unit js" where
  "sendBeacon cfg eventType eventData =
     js_bind getSessionId (\<lambda>sessionId.
     js_bind getVisitorId (\<lambda>visitorId.
     js_bind (js_gets (\<lambda>w. (href w, title w))) (\<lambda>(page_href, page_ttl).
       let payload = \<lparr> event_type = eventType, ev_session_id = sessionId,
                       ev_visitor_id = visitorId, page_url = page_href, page_title = page_ttl,
                       referrer = None,
                       property_id = promoted eventData ''property_id'',
                       article_id = promoted eventData ''article_id'',
                       event_data = eventData \<rparr>;
           url = apiUrl cfg @ ''/functions/v1/track-event''
       in js_bind (js_gets has_sendBeacon) (\<lambda>available.
            if available then
              js_modify (\<lambda>w. w\<lparr>net := net w @ [BeaconEvent url (apiKey cfg) payload]\<rparr>)
            else sendEvent cfg payload))))"

definition buildEventPayload :: "string \<Rightarrow> obj option \<Rightarrow> EventData js" where
  "buildEventPayload eventType eventData =
     js_bind getSessionId (\<lambda>sessionId.
     js_bind getVisitorId (\<lambda>visitorId.
     js_bind (js_gets (\<lambda>w. (href w, title w, doc_referrer w))) (\<lambda>(page_href, page_ttl, ref).
       js_return
         \<lparr> event_type = eventType, ev_session_id = sessionId, ev_visitor_id = visitorId,
           page_url = page_href, page_title = page_ttl,
           referrer = (if ref = [] then None else Some ref),
           property_id = promoted eventData ''property_id'',
           article_id = promoted eventData ''article_id'',
           event_data = eventData \<rparr>)))"

section \<open>Domain tracking files\<close>

subsection \<open>Property (tracking/modules/property)\<close>

definition trackPropertyView :: "RequiredTrackerConfig \<Rightarrow> string \<Rightarrow> obj option \<Rightarrow> unit js" where
  "trackPropertyView cfg propertyId additionalData =
     js_bind (js_gets href) (\<lambda>page_href.
     js_bind (buildEventPayload ''property_view''
                (Some (obj_spread [(''property_id'', Str propertyId), (''page_url'', Str page_href)]
                         (case additionalData of None \<Rightarrow> [] | Some d \<Rightarrow> d)))) (\<lambda>payload.
     sendEvent cfg payload))"

definition trackPropertyDuration :: "RequiredTrackerConfig \<Rightarrow> string \<Rightarrow> int \<Rightarrow> unit js" where
  "trackPropertyDuration cfg propertyId startTime =
     (if startTime = 0 then js_return ()
      else
        js_bind (js_gets clock) (\<lambda>now.
          let duration = (now - startTime) div 1000
          in if duration < 3 then js_return ()
             else
               js_bind (js_gets href) (\<lambda>page_href.
                 sendBeacon cfg ''property_view''
                   (Some [(''property_id'', Str propertyId),
                          (''view_duration_seconds'', Num duration),
                          (''page_url'', Str page_href)]))))"

definition removeEventListener :: "event_name \<Rightarrow> handler \<Rightarrow> unit js" where
  "removeEventListener ev h = js_modify (\<lambda>w. w\<lparr>listeners := remove1 (ev, h) (listeners w)\<rparr>)"

text \<open>Adding a listener that is already registered for the event does nothing, as in the DOM.\<close>

definition addEventListener :: "event_name \<Rightarrow> handler \<Rightarrow> unit js" where
  "addEventListener ev h =
     js_modify (\<lambda>w. if (ev, h) \<in> set (listeners w) then w
                     else w\<lparr>listeners := listeners w @ [(ev, h)]\<rparr>)"

definition setupPropertyDurationTracking :: "RequiredTrackerConfig \<Rightarrow> string \<Rightarrow> unit js" where
  "setupPropertyDurationTracking cfg propertyId =
     js_bind (js_gets currentPropertyDurationTracking) (\<lambda>current.
       if current = Some propertyId then js_return ()
       else
         js_bind (js_gets propertyDurationHandler) (\<lambda>old.
         js_bind (case old of
                    None \<Rightarrow> js_return ()
                  | Some h \<Rightarrow> js_bind (removeEventListener Beforeunload h) (\<lambda>_.
                               removeEventListener Pagehide h)) (\<lambda>_.
         js_bind (js_gets propertyVisibilityHandler) (\<lambda>oldv.
         js_bind (case oldv of
                    None \<Rightarrow> js_return ()
                  | Some h \<Rightarrow> removeEventListener Visibilitychange h) (\<lambda>_.
         js_bind (js_modify (\<lambda>w. w\<lparr>currentPropertyDurationTracking := Some propertyId,
                                    propertyDurationHandler := Some (PropertyDurationHandler cfg propertyId),
                                    propertyVisibilityHandler := Some (PropertyVisibilityHandler cfg propertyId)\<rparr>)) (\<lambda>_.
         js_bind (addEventListener Beforeunload (PropertyDurationHandler cfg propertyId)) (\<lambda>_.
         js_bind (addEventListener Pagehide (PropertyDurationHandler cfg propertyId)) (\<lambda>_.
         addEventListener Visibilitychange (PropertyVisibilityHandler cfg propertyId)))))))))"

subsection \<open>Blog (tracking/modules/blog)\<close>

definition trackBlogView :: "RequiredTrackerConfig \<Rightarrow> string \<Rightarrow> obj option \<Rightarrow> unit js" where
  "trackBlogView cfg articleId additionalData =
     js_bind (js_gets href) (\<lambda>page_href.
     js_bind (buildEventPayload ''blog_view''
                (Some (obj_spread [(''article_id'', Str articleId), (''page_url'', Str page_href)]
                         (case additionalData of None \<Rightarrow> [] | Some d \<Rightarrow> d)))) (\<lambda>payload.
     sendEvent cfg payload))"

definition trackBlogDuration :: "RequiredTrackerConfig \<Rightarrow> string \<Rightarrow> int \<Rightarrow> int \<Rightarrow> unit js" where
  "trackBlogDuration cfg articleId startTime maxDepth =
     (if startTime = 0 then js_return ()
      else
        js_bind (js_gets clock) (\<lambda>now.
          let duration = (now - startTime) div 1000
          in if duration < 5 then js_return ()
             else
               js_bind (js_gets href) (\<lambda>page_href.
                 sendBeacon cfg ''blog_read_time''
                   (Some [(''article_id'', Str articleId),
                          (''read_duration_seconds'', Num duration),
                          (''max_scroll_depth'', Num maxDepth),
                          (''page_url'', Str page_href)]))))"

text \<open>
  The scroll listener of \<open>setupScrollDepthTracking\<close>. Its closure variable
  \<open>maxScrollDepth\<close> is passed in and the new value returned. \<open>scrollPercent\<close> is the value the
  listener computes with \<open>Math.round\<close> from the scroll position; that floating-point
  computation is outside this development.
\<close>

definition trackScroll :: "RequiredTrackerConfig \<Rightarrow> string \<Rightarrow> int \<Rightarrow> int \<Rightarrow> int js" where
  "trackScroll cfg articleId scrollPercent maxDepth =
     (let milestones = [25, 50, 75, 100];
          currentMilestone = find (\<lambda>m. scrollPercent \<ge> m \<and> maxDepth < m) milestones
      in case currentMilestone of
           Some m \<Rightarrow>
             if m \<noteq> 0 \<and> scrollPercent > maxDepth then
               js_bind (js_gets href) (\<lambda>page_href.
               js_bind (buildEventPayload ''blog_scroll_depth''
                          (Some [(''article_id'', Str articleId),
                                 (''scroll_depth'', Num m),
                                 (''page_url'', Str page_href)])) (\<lambda>payload.
               js_bind (sendEvent cfg payload) (\<lambda>_. js_return scrollPercent)))
             else if scrollPercent > maxDepth then js_return scrollPercent
             else js_return maxDepth
         | None \<Rightarrow>
             if scrollPercent > maxDepth then js_return scrollPercent else js_return maxDepth)"

text \<open>A sequence of scroll events at the given percentages, starting from a closure value.\<close>

fun scrollTo :: "RequiredTrackerConfig \<Rightarrow> string \<Rightarrow> int list \<Rightarrow> int \<Rightarrow> int js" where
  "scrollTo cfg articleId [] maxDepth = js_return maxDepth"
| "scrollTo cfg articleId (p # ps) maxDepth =
     js_bind (trackScroll cfg articleId p maxDepth) (\<lambda>maxDepth'. scrollTo cfg articleId ps maxDepth')"

text \<open>
  \<open>setupScrollDepthTracking\<close> creates the closure variable, registers the scroll listener
  and returns the getter, here the number of the closure.
\<close>

definition setupScrollDepthTracking :: "RequiredTrackerConfig \<Rightarrow> string \<Rightarrow> nat js" where
  "setupScrollDepthTracking cfg articleId =
     js_bind (js_gets (\<lambda>w. length (scroll_closures w))) (\<lambda>c.
     js_bind (js_modify (\<lambda>w. w\<lparr>scroll_closures := scroll_closures w @ [0]\<rparr>)) (\<lambda>_.
     js_bind (addEventListener Scroll (ScrollHandler cfg articleId c)) (\<lambda>_.
     js_return c)))"

definition setupBlogDurationTracking :: "RequiredTrackerConfig \<Rightarrow> string \<Rightarrow> nat \<Rightarrow> unit js" where
  "setupBlogDurationTracking cfg articleId c =
     js_bind (addEventListener Beforeunload (BlogDurationHandler cfg articleId c)) (\<lambda>_.
     js_bind (addEventListener Pagehide (BlogDurationHandler cfg articleId c)) (\<lambda>_.
     addEventListener Visibilitychange (BlogVisibilityHandler cfg articleId c)))"

subsection \<open>Page and session end (tracking/modules/page)\<close>

definition trackSessionEnd :: "RequiredTrackerConfig \<Rightarrow> int \<Rightarrow> obj option \<Rightarrow> unit js" where
  "trackSessionEnd cfg startTime additionalData =
     js_bind (js_gets clock) (\<lambda>now.
       let durationSeconds = (if startTime \<noteq> 0 then (now - startTime) div 1000 else 0)
       in js_bind (js_gets href) (\<lambda>page_href.
            sendBeacon cfg ''session_end''
              (Some (obj_spread [(''duration_seconds'', Num durationSeconds),
                                 (''page_url'', Str page_href)]
                       (case additionalData of None \<Rightarrow> [] | Some d \<Rightarrow> d)))))"

subsection \<open>Running the registered listeners\<close>

text \<open>The closure variable of a scroll tracker, read and written.\<close>

definition getMaxScrollDepth :: "nat \<Rightarrow> int js" where
  "getMaxScrollDepth c =
     js_gets (\<lambda>w. if c < length (scroll_closures w) then scroll_closures w ! c else 0)"

definition setMaxScrollDepth :: "nat \<Rightarrow> int \<Rightarrow> unit js" where
  "setMaxScrollDepth c v = js_modify (\<lambda>w. w\<lparr>scroll_closures := (scroll_closures w)[c := v]\<rparr>)"

text \<open>
  The closure \<open>trackDuration\<close> of \<open>setupBlogDurationTracking\<close> with the getters the facade
  passes: the second getter copies the closure variable into \<open>this.maxScrollDepth\<close> first.
\<close>

definition blog_trackDuration :: "RequiredTrackerConfig \<Rightarrow> string \<Rightarrow> nat \<Rightarrow> unit js" where
  "blog_trackDuration cfg articleId c =
     js_bind (js_gets (\<lambda>w. blogViewStartTime (StratosTracker w))) (\<lambda>startTime.
     js_bind (getMaxScrollDepth c) (\<lambda>depth.
     js_bind (js_modify (\<lambda>w. w\<lparr>StratosTracker := (StratosTracker w)\<lparr>maxScrollDepth := depth\<rparr>\<rparr>)) (\<lambda>_.
     trackBlogDuration cfg articleId startTime depth)))"

definition run_handler :: "handler \<Rightarrow> unit js" where
  "run_handler h =
     (case h of
        PropertyDurationHandler cfg propertyId \<Rightarrow>
          js_bind (js_gets (\<lambda>w. propertyViewStartTime (StratosTracker w))) (\<lambda>startTime.
          trackPropertyDuration cfg propertyId startTime)
      | PropertyVisibilityHandler cfg propertyId \<Rightarrow>
          js_bind (js_gets visibility_hidden) (\<lambda>hidden.
            if hidden then
              js_bind (js_gets (\<lambda>w. propertyViewStartTime (StratosTracker w))) (\<lambda>startTime.
              trackPropertyDuration cfg propertyId startTime)
            else js_return ())
      | ScrollHandler cfg articleId c \<Rightarrow>
          js_bind (js_gets page_scrollPercent) (\<lambda>percent.
          js_bind (getMaxScrollDepth c) (\<lambda>depth.
          js_bind (trackScroll cfg articleId percent depth) (\<lambda>depth'.
          setMaxScrollDepth c depth')))
      | BlogDurationHandler cfg articleId c \<Rightarrow> blog_trackDuration cfg articleId c
      | BlogVisibilityHandler cfg articleId c \<Rightarrow>
          js_bind (js_gets visibility_hidden) (\<lambda>hidden.
            if hidden then blog_trackDuration cfg articleId c else js_return ()))"

fun run_handlers :: "handler list \<Rightarrow> unit js" where
  "run_handlers [] = js_return ()"
| "run_handlers (h # hs) = js_bind (run_handler h) (\<lambda>_. run_handlers hs)"

text \<open>The browser firing an event at the page: the listeners registered for it run in order.\<close>

definition dispatchEvent :: "event_name \<Rightarrow> unit js" where
  "dispatchEvent ev =
     js_bind (js_gets listeners) (\<lambda>ls. run_handlers (map snd (filter (\<lambda>l. fst l = ev) ls)))"

text \<open>The visitor scrolls to a percentage of the page and the scroll event fires.\<close>

definition scroll_page_to :: "int \<Rightarrow> unit js" where
  "scroll_page_to percent =
     js_bind (js_modify (\<lambda>w. w\<lparr>page_scrollPercent := percent\<rparr>)) (\<lambda>_. dispatchEvent Scroll)"

subsection \<open>Favourites (tracking/modules/favourites)\<close>

record ToggleFavouriteResult =
  is_favourited :: jsval
  count :: jsval

text \<open>
  What the network answers to one \<open>fetch\<close>: the promise rejects, or a response arrives with
  its \<open>ok\<close> flag and its body (\<open>None\<close> when the body is not JSON, so that
  \<open>response.json()\<close> rejects).
\<close>

datatype response = Rejected | Response bool "jsval option"

definition response_json :: "jsval option \<Rightarrow> jsval js" where
  "response_json body = (case body of None \<Rightarrow> js_throw SyntaxError | Some v \<Rightarrow> js_return v)"

text \<open>Property read on an arbitrary value: reading from null or undefined throws.\<close>

definition js_field :: "jsval \<Rightarrow> string \<Rightarrow> jsval js" where
  "js_field v k =
     (case v of
        Undefined \<Rightarrow> js_throw TypeError
      | Null \<Rightarrow> js_throw TypeError
      | Obj kvs \<Rightarrow> js_return (obj_get kvs k)
      | _ \<Rightarrow> js_return Undefined)"

text \<open>
  The \<open>try\<close> statement of \<open>toggleFavourite\<close>, with the two ids read before it. The request
  is entered in \<open>net\<close> when \<open>fetch\<close> is called, whatever its outcome.
\<close>

definition toggleFavourite_try ::
  "RequiredTrackerConfig \<Rightarrow> string \<Rightarrow> string \<Rightarrow> response \<Rightarrow> string \<Rightarrow> string \<Rightarrow>
     ToggleFavouriteResult js" where
  "toggleFavourite_try cfg propertyId source resp visitorId sessionId =
       js_try
         (js_bind (js_modify (\<lambda>w. w\<lparr>net := net w @
                      [FetchToggleFavourite (apiUrl cfg @ ''/functions/v1/toggle-favourite'')
                         (apiKey cfg) visitorId sessionId propertyId source]\<rparr>)) (\<lambda>_.
            case resp of
              Rejected \<Rightarrow> js_throw NetworkFailure
            | Response ok body \<Rightarrow>
                if \<not> ok then
                  js_bind (response_json body) (\<lambda>error.
                  js_return \<lparr> is_favourited = Bool False, count = Num 0 \<rparr>)
                else
                  js_bind (response_json body) (\<lambda>result.
                  js_bind (js_field result ''is_favourited'') (\<lambda>fav.
                  js_bind (buildEventPayload
                             (if truthy fav then ''property_favourited'' else ''property_unfavourited'')
                             (Some [(''property_id'', Str propertyId), (''source'', Str source)])) (\<lambda>payload.
                  js_bind (sendEvent cfg payload) (\<lambda>_.
                  js_bind (js_field result ''is_favourited'') (\<lambda>fav'.
                  js_bind (js_field result ''count'') (\<lambda>c.
                  js_return \<lparr> is_favourited = fav', count = js_or c (Num 0) \<rparr>))))))))
         (\<lambda>error. js_return \<lparr> is_favourited = Bool False, count = Num 0 \<rparr>)"

text \<open>\<open>toggleFavourite\<close>: both ids are read before the \<open>try\<close> statement is entered.\<close>

definition toggleFavourite ::
  "RequiredTrackerConfig \<Rightarrow> string \<Rightarrow> string \<Rightarrow> response \<Rightarrow> ToggleFavouriteResult js" where
  "toggleFavourite cfg propertyId source resp =
     js_bind getVisitorId (\<lambda>visitorId.
     js_bind getSessionId (\<lambda>sessionId.
     toggleFavourite_try cfg propertyId source resp visitorId sessionId))"


section \<open>Tracker facade (tracking/core/StratosTracker)\<close>

definition canTrack :: "bool js" where
  "canTrack = js_gets (\<lambda>w. trackingEnabled (config (StratosTracker w)) \<and> consentGiven (StratosTracker w))"

definition this_config :: "RequiredTrackerConfig js" where
  "this_config = js_gets (\<lambda>w. config (StratosTracker w))"

definition set_this :: "(tracker \<Rightarrow> tracker) \<Rightarrow> unit js" where
  "set_this f = js_modify (\<lambda>w. w\<lparr>StratosTracker := f (StratosTracker w)\<rparr>)"

text \<open>
  The methods act on the one tracker of the page, \<open>StratosTracker w\<close>. Console logging is
  left out throughout. \<open>init\<close> also calls \<open>setupAutomaticTracking\<close>, whose only callee
  \<open>setupPageExitTracking\<close> has an empty body.
\<close>

definition StratosTracker_init :: "unit js" where
  "StratosTracker_init =
     js_bind (js_gets (\<lambda>w. consentGiven (StratosTracker w))) (\<lambda>consent.
       if \<not> consent then js_return ()
       else
         js_bind (js_gets (\<lambda>w. isInitialized (StratosTracker w))) (\<lambda>initialized.
           if initialized then js_return ()
           else
             js_bind (js_gets clock) (\<lambda>now.
             set_this (\<lambda>t. t\<lparr>pageLoadTime := now, sessionStartTime := now, isInitialized := True\<rparr>))))"

definition StratosTracker_setConsent :: "bool \<Rightarrow> unit js" where
  "StratosTracker_setConsent hasConsent =
     js_bind (js_gets (\<lambda>w. consentGiven (StratosTracker w))) (\<lambda>previousConsent.
     js_bind (set_this (\<lambda>t. t\<lparr>consentGiven := hasConsent\<rparr>)) (\<lambda>_.
       if hasConsent \<and> \<not> previousConsent then
         js_bind initSession (\<lambda>_. StratosTracker_init)
       else if \<not> hasConsent then
         js_bind clearAllTrackingData (\<lambda>_. set_this (\<lambda>t. t\<lparr>isInitialized := False\<rparr>))
       else js_return ()))"

definition StratosTracker_setTrackingEnabled :: "bool \<Rightarrow> unit js" where
  "StratosTracker_setTrackingEnabled enabled =
     set_this (\<lambda>t. t\<lparr>config := (config t)\<lparr>trackingEnabled := enabled\<rparr>\<rparr>)"

definition StratosTracker_trackPropertyView :: "string \<Rightarrow> obj option \<Rightarrow> unit js" where
  "StratosTracker_trackPropertyView propertyId additionalData =
     js_bind canTrack (\<lambda>allowed.
       if \<not> allowed then js_return ()
       else
         js_bind (js_gets clock) (\<lambda>now.
         js_bind (set_this (\<lambda>t. t\<lparr>propertyViewStartTime := now\<rparr>)) (\<lambda>_.
         js_bind this_config (\<lambda>cfg. trackPropertyView cfg propertyId additionalData))))"

definition StratosTracker_trackPropertyDuration :: "string \<Rightarrow> unit js" where
  "StratosTracker_trackPropertyDuration propertyId =
     js_bind (js_gets StratosTracker) (\<lambda>this.
       if \<not> trackingEnabled (config this) \<or> propertyViewStartTime this = 0 then js_return ()
       else trackPropertyDuration (config this) propertyId (propertyViewStartTime this))"

definition StratosTracker_setupPropertyDurationTracking :: "string \<Rightarrow> unit js" where
  "StratosTracker_setupPropertyDurationTracking propertyId =
     js_bind (js_gets clock) (\<lambda>now.
     js_bind (set_this (\<lambda>t. t\<lparr>propertyViewStartTime := now\<rparr>)) (\<lambda>_.
     js_bind this_config (\<lambda>cfg. setupPropertyDurationTracking cfg propertyId)))"

definition StratosTracker_trackBlogView :: "string \<Rightarrow> obj option \<Rightarrow> unit js" where
  "StratosTracker_trackBlogView articleId additionalData =
     js_bind canTrack (\<lambda>allowed.
       if \<not> allowed then js_return ()
       else
         js_bind (js_gets clock) (\<lambda>now.
         js_bind (set_this (\<lambda>t. t\<lparr>blogViewStartTime := now, maxScrollDepth := 0\<rparr>)) (\<lambda>_.
         js_bind this_config (\<lambda>cfg. trackBlogView cfg articleId additionalData))))"

definition StratosTracker_trackBlogDuration :: "string \<Rightarrow> unit js" where
  "StratosTracker_trackBlogDuration articleId =
     js_bind (js_gets StratosTracker) (\<lambda>this.
       if \<not> trackingEnabled (config this) \<or> blogViewStartTime this = 0 then js_return ()
       else trackBlogDuration (config this) articleId (blogViewStartTime this) (maxScrollDepth this))"

definition StratosTracker_setupBlogDurationTracking :: "string \<Rightarrow> unit js" where
  "StratosTracker_setupBlogDurationTracking articleId =
     js_bind (js_gets clock) (\<lambda>now.
     js_bind (set_this (\<lambda>t. t\<lparr>blogViewStartTime := now, maxScrollDepth := 0\<rparr>)) (\<lambda>_.
     js_bind this_config (\<lambda>cfg.
     js_bind (setupScrollDepthTracking cfg articleId) (\<lambda>c.
     js_bind this_config (\<lambda>cfg'.
     setupBlogDurationTracking cfg' articleId c)))))"

definition StratosTracker_trackSessionEnd :: "obj option \<Rightarrow> unit js" where
  "StratosTracker_trackSessionEnd additionalData =
     js_bind (js_gets StratosTracker) (\<lambda>this.
       if \<not> trackingEnabled (config this) then js_return ()
       else trackSessionEnd (config this) (sessionStartTime this) additionalData)"

definition StratosTracker_trackEvent :: "string \<Rightarrow> obj option \<Rightarrow> unit js" where
  "StratosTracker_trackEvent eventType eventData =
     js_bind canTrack (\<lambda>allowed.
       if \<not> allowed then js_return ()
       else
         js_bind (buildEventPayload eventType eventData) (\<lambda>payload.
         js_bind this_config (\<lambda>cfg. sendEvent cfg payload)))"

definition StratosTracker_toggleFavourite ::
  "string \<Rightarrow> string option \<Rightarrow> response \<Rightarrow> ToggleFavouriteResult js" where
  "StratosTracker_toggleFavourite propertyId source resp =
     js_bind canTrack (\<lambda>allowed.
       if \<not> allowed then js_return \<lparr> is_favourited = Bool False, count = Num 0 \<rparr>
       else
         js_bind this_config (\<lambda>cfg.
         toggleFavourite cfg propertyId (case source of None \<Rightarrow> ''unknown'' | Some s \<Rightarrow> s) resp))"


section \<open>Search store-and-forward (tracking/modules/search)\<close>

text \<open>
  What \<open>JSON.parse(JSON.stringify(v))\<close> returns: object entries whose value is undefined are
  dropped. A dropped top-level field of the search record reads back as undefined.
\<close>

fun json_roundtrip :: "jsval \<Rightarrow> jsval" where
  "json_roundtrip (Obj kvs) =
     Obj (map (\<lambda>kv. (fst kv, json_roundtrip (snd kv))) (filter (\<lambda>kv. snd kv \<noteq> Undefined) kvs))"
| "json_roundtrip v = v"

text \<open>The object literal \<open>trackingData\<close> of \<open>storeSearchForTracking\<close>.\<close>

definition trackingData_literal :: "SearchTrackingData \<Rightarrow> int \<Rightarrow> string \<Rightarrow> SearchTrackingData" where
  "trackingData_literal data now path =
     \<lparr> listing_type = js_or (listing_type data) (Str ''sale''),
       timestamp = now,
       location = js_or (js_or (location data) (postcode data)) (Str []),
       postcode = js_or (postcode data) (Str []),
       min_price = min_price data,
       max_price = max_price data,
       bedrooms = bedrooms data,
       bathrooms = bathrooms data,
       property_type = property_type data,
       filters = js_or (filters data) (Obj []),
       filters_count = js_or (filters_count data) (Num 0),
       source_page = js_or (source_page data) (Str path),
       source_component = js_or (source_component data) (Str ''unknown'') \<rparr>"

text \<open>The record that \<open>JSON.parse\<close> reads back from \<open>JSON.stringify(trackingData)\<close>.\<close>

definition stringified :: "SearchTrackingData \<Rightarrow> SearchTrackingData" where
  "stringified t =
     \<lparr> listing_type = json_roundtrip (listing_type t),
       timestamp = timestamp t,
       location = json_roundtrip (location t),
       postcode = json_roundtrip (postcode t),
       min_price = json_roundtrip (min_price t),
       max_price = json_roundtrip (max_price t),
       bedrooms = json_roundtrip (bedrooms t),
       bathrooms = json_roundtrip (bathrooms t),
       property_type = json_roundtrip (property_type t),
       filters = json_roundtrip (filters t),
       filters_count = json_roundtrip (filters_count t),
       source_page = json_roundtrip (source_page t),
       source_component = json_roundtrip (source_component t) \<rparr>"

text \<open>
  The argument is a \<open>Partial<SearchTrackingData>\<close>: a field that is not given is
  \<open>Undefined\<close>, and the \<open>timestamp\<close> of the argument is not read.
\<close>

definition storeSearchForTracking :: "SearchTrackingData \<Rightarrow> unit js" where
  "storeSearchForTracking data =
     js_try
       (js_bind (js_gets clock) (\<lambda>now.
        js_bind (js_gets pathname) (\<lambda>path.
          let trackingData = trackingData_literal data now path
          in setItem ss_mode (\<lambda>w. w\<lparr>ss_stratos_pending_search := Some (Json (stringified trackingData))\<rparr>))))
       (\<lambda>error. js_return ())"

text \<open>
  The event data \<open>sendPendingSearchEvent\<close> builds from the stored record. \<open>formatPriceRange\<close>
  renders prices through \<open>Number()\<close> and \<open>toFixed\<close>, floating-point string formatting that
  is outside this development: it is a parameter here.
\<close>

definition search_event_data :: "(jsval \<Rightarrow> jsval \<Rightarrow> string) \<Rightarrow> SearchTrackingData \<Rightarrow> int \<Rightarrow> obj" where
  "search_event_data formatPriceRange data now =
     [(''location'', js_or (js_or (location data) (postcode data)) (Str [])),
      (''postcode'', js_or (postcode data) (Str [])),
      (''min_price'', js_or (min_price data) Null),
      (''max_price'', js_or (max_price data) Null),
      (''price_range'', Str (formatPriceRange (min_price data) (max_price data))),
      (''bedrooms'', js_or (bedrooms data) Null),
      (''bathrooms'', js_or (bathrooms data) Null),
      (''property_type'', js_or (property_type data) Null),
      (''listing_type'', listing_type data),
      (''filters'', filters data),
      (''filters_count'', filters_count data),
      (''source_page'', source_page data),
      (''source_component'', source_component data),
      (''search_timestamp'', Num (timestamp data)),
      (''tracking_delay_ms'', Num (now - timestamp data))]"

definition sendPendingSearchEvent :: "(jsval \<Rightarrow> jsval \<Rightarrow> string) \<Rightarrow> bool js" where
  "sendPendingSearchEvent formatPriceRange =
     js_try
       (js_bind (getItem ss_mode ss_stratos_pending_search) (\<lambda>stored.
          case stored of
            None \<Rightarrow> js_return False
          | Some text \<Rightarrow>
              if falsy_item stored then js_return False
              else
                js_bind (removeItem ss_mode (\<lambda>w. w\<lparr>ss_stratos_pending_search := None\<rparr>)) (\<lambda>_.
                js_bind (JSON_parse text) (\<lambda>data.
                js_bind (js_gets clock) (\<lambda>now.
                  if now - timestamp data > 30000 then js_return False
                  else
                    js_bind (js_gets window_StratosTracker) (\<lambda>present.
                      if present then
                        js_bind (StratosTracker_trackEvent ''search''
                                   (Some (search_event_data formatPriceRange data now))) (\<lambda>_.
                        js_return True)
                      else js_return False))))))
       (\<lambda>error. js_return False)"

text \<open>Time passing between two calls.\<close>

definition advance :: "int \<Rightarrow> world \<Rightarrow> world" where
  "advance ms w = w\<lparr>clock := clock w + ms\<rparr>"

section \<open>Reading the state\<close>

text \<open>What \<open>hasAnalyticsConsent\<close> answers in a world, as a plain function of the store.\<close>

definition store_consent :: "world \<Rightarrow> bool" where
  "store_consent w =
     (ls_mode w \<noteq> Blocked \<and>
      (case ls_stratos_cookie_consent w of Some (Json c) \<Rightarrow> analytics c | _ \<Rightarrow> False))"

text \<open>The session \<open>getStoredSession\<close> finds: the persisted one under consent, else the one in memory.\<close>

definition current_session :: "world \<Rightarrow> SessionData option" where
  "current_session w =
     (if store_consent w
      then (case ls_sr_session w of Some (Json s) \<Rightarrow> Some s | _ \<Rightarrow> None)
      else tempSession w)"

text \<open>Session writes reach the place they are read from: under consent \<open>setItem\<close> must work.\<close>

definition storage_ok :: "world \<Rightarrow> bool" where
  "storage_ok w = (store_consent w \<longrightarrow> ls_mode w = Available)"

text \<open>
  Two worlds that differ at most in the visitor and session identity (persisted or in memory)
  and in how many UUIDs were drawn.
\<close>

definition identity_only :: "world \<Rightarrow> world \<Rightarrow> bool" where
  "identity_only w w' =
     (clock w' = clock w \<and> ls_mode w' = ls_mode w \<and>
      ls_stratos_cookie_consent w' = ls_stratos_cookie_consent w \<and>
      ss_mode w' = ss_mode w \<and> ss_stratos_pending_search w' = ss_stratos_pending_search w \<and>
      uuid_source w' = uuid_source w \<and> has_sendBeacon w' = has_sendBeacon w \<and>
      href w' = href w \<and> pathname w' = pathname w \<and> title w' = title w \<and>
      doc_referrer w' = doc_referrer w \<and> net w' = net w \<and> listeners w' = listeners w \<and>
      visibility_hidden w' = visibility_hidden w \<and>
      currentPropertyDurationTracking w' = currentPropertyDurationTracking w \<and>
      propertyDurationHandler w' = propertyDurationHandler w \<and>
      propertyVisibilityHandler w' = propertyVisibilityHandler w \<and>
      scroll_closures w' = scroll_closures w \<and> page_scrollPercent w' = page_scrollPercent w \<and>
      StratosTracker w' = StratosTracker w \<and>
      window_StratosTracker w' = window_StratosTracker w)"

subsection \<open>Example pages\<close>

text \<open>
  A page just loaded in a browser with empty storage and no consent decision, holding a
  tracker built with the default config; and the consent banner accepting or the visitor
  having accepted before.
\<close>

definition example_tracker :: tracker where
  "example_tracker =
     \<lparr> config = \<lparr> apiUrl = ''https://api.example'', apiKey = ''key'',
                  trackingEnabled = True, debug = False \<rparr>,
       pageLoadTime = 0, propertyViewStartTime = 0, blogViewStartTime = 0, maxScrollDepth = 0,
       sessionStartTime = 0, isInitialized = False, consentGiven = False \<rparr>"

definition example_page :: world where
  "example_page =
     \<lparr> clock = 1700000000000, ls_mode = Available, ls_stratos_cookie_consent = None,
       ls_sr_session = None, ls_sr_visitor = None, ss_mode = Available,
       ss_stratos_pending_search = None, tempVisitorId = None, tempSession = None,
       uuid_source = (\<lambda>n. ''uuid-'' @ replicate n (CHR ''i'')), uuid_drawn = 0,
       has_sendBeacon = True, href = ''https://site.example/property/7'',
       pathname = ''/property/7'', title = ''Property 7'', doc_referrer = [], net = [],
       listeners = [], visibility_hidden = False, currentPropertyDurationTracking = None,
       propertyDurationHandler = None, propertyVisibilityHandler = None,
       scroll_closures = [], page_scrollPercent = 0,
       StratosTracker = example_tracker, window_StratosTracker = True \<rparr>"

definition accept_all :: ConsentStatus where
  "accept_all = \<lparr> necessary = True, analytics = True, marketing = True,
                  consent_timestamp = ''2023-11-14T22:13:20.000Z'', version = ''1.0'' \<rparr>"

definition consented_page :: world where
  "consented_page =
     example_page\<lparr> ls_stratos_cookie_consent := Some (Json accept_all),
                   StratosTracker := example_tracker\<lparr>consentGiven := True\<rparr> \<rparr>"

definition example_session :: SessionData where
  "example_session =
     \<lparr> session_id = ''session-a'', visitor_id = ''visitor-a'', created_at = 1699999000000,
       last_activity_at = 1699999990000, page_views = 5 \<rparr>"

definition session_page :: world where
  "session_page =
     consented_page\<lparr> ls_sr_session := Some (Json example_session),
                     ls_sr_visitor := Some ''visitor-a'' \<rparr>"

text \<open>The same page once \<open>localStorage\<close> is full: reads work, \<open>setItem\<close> throws.\<close>

definition quota_page :: world where
  "quota_page = session_page\<lparr> ls_mode := QuotaFull \<rparr>"

subsection \<open>Scenarios\<close>

text \<open>
  \<open>getSessionId\<close> called once after each of the given waits (milliseconds), collecting the
  returned ids.
\<close>

fun getSessionId_calls :: "int list \<Rightarrow> string list js" where
  "getSessionId_calls [] = js_return []"
| "getSessionId_calls (d # ds) =
     js_bind (js_modify (advance d)) (\<lambda>_.
     js_bind getSessionId (\<lambda>sid.
     js_bind (getSessionId_calls ds) (\<lambda>sids. js_return (sid # sids))))"

text \<open>
  Every call of such a sequence comes at most 30 minutes after the activity before it:
  \<open>active\<close> is the time of the last activity, \<open>now\<close> the current time.
\<close>

fun within_idle_window :: "int \<Rightarrow> int \<Rightarrow> int list \<Rightarrow> bool" where
  "within_idle_window active now [] = True"
| "within_idle_window active now (d # ds) =
     (now + d - active \<le> SESSION_TIMEOUT_MS \<and> within_idle_window (now + d) (now + d) ds)"

text \<open>
  The random generator never repeats itself and never returns the id of the session the
  page already has.
\<close>

definition uuids_fresh :: "world \<Rightarrow> bool" where
  "uuids_fresh w =
     (inj (uuid_source w) \<and>
      (\<forall>n. uuid_drawn w \<le> n \<longrightarrow> Some (uuid_source w n) \<noteq> map_option session_id (current_session w)))"

text \<open>The consent banner stores an accepting decision (it is outside the tracker).\<close>

definition grant_consent :: "world \<Rightarrow> world" where
  "grant_consent w = w\<lparr>ls_stratos_cookie_consent := Some (Json accept_all)\<rparr>"

text \<open>A visitor whose id was persisted on an earlier visit and whose consent record is gone.\<close>

definition returning_page :: world where
  "returning_page = example_page\<lparr>ls_sr_visitor := Some ''visitor-from-before''\<rparr>"

text \<open>The milestone carried by a request, when the request is a scroll-depth event.\<close>

fun scroll_depth_of :: "request \<Rightarrow> jsval option" where
  "scroll_depth_of (FetchEvent url key p) =
     (if event_type p = ''blog_scroll_depth''
      then map_option (\<lambda>d. obj_get d ''scroll_depth'') (event_data p)
      else None)"
| "scroll_depth_of (BeaconEvent url key p) = None"
| "scroll_depth_of (FetchToggleFavourite url key v s p src) = None"

definition scroll_depths_sent :: "request list \<Rightarrow> jsval list" where
  "scroll_depths_sent reqs = List.map_filter scroll_depth_of reqs"

text \<open>
  A search with a location and no prices, and what \<open>formatPriceRange\<close> returns for a search
  without prices.
\<close>

definition example_search :: SearchTrackingData where
  "example_search =
     \<lparr> listing_type = Str ''let'', timestamp = 0, location = Str ''Leeds'', postcode = Undefined,
       min_price = Undefined, max_price = Undefined, bedrooms = Num 2, bathrooms = Undefined,
       property_type = Undefined, filters = Obj [(''garden'', Bool True)], filters_count = Num 1,
       source_page = Undefined, source_component = Str ''hero_search'' \<rparr>"

definition example_format :: "jsval \<Rightarrow> jsval \<Rightarrow> string" where
  "example_format lo hi = ''Any price''"

section \<open>Basic facts\<close>

lemmas js_defs = js_return_def js_throw_def js_bind_def js_try_def js_gets_def js_modify_def

lemma hasAnalyticsConsent_eq: "hasAnalyticsConsent w = (Inr (store_consent w), w)"
  by (auto simp: hasAnalyticsConsent_def store_consent_def js_defs getItem_def JSON_parse_def
           split: option.splits cell.splits)

lemma getStoredSession_eq: "getStoredSession w = (Inr (current_session w), w)"
  by (auto simp: getStoredSession_def current_session_def hasAnalyticsConsent_eq js_defs
        getItem_def JSON_parse_def store_consent_def
      split: option.splits cell.splits)

lemma identity_only_refl: "identity_only w w"
  by (simp add: identity_only_def)

lemma identity_only_trans: "identity_only w w1 \<Longrightarrow> identity_only w1 w2 \<Longrightarrow> identity_only w w2"
  by (simp add: identity_only_def)

lemma store_consent_frame: "identity_only w w' \<Longrightarrow> store_consent w' = store_consent w"
  by (simp add: identity_only_def store_consent_def)

lemma storage_ok_frame: "identity_only w w' \<Longrightarrow> storage_ok w' = storage_ok w"
  by (simp add: storage_ok_def store_consent_frame) (simp add: identity_only_def)

lemma current_session_frame:
  "identity_only w w' \<Longrightarrow> ls_sr_session w' = ls_sr_session w \<Longrightarrow> tempSession w' = tempSession w
     \<Longrightarrow> current_session w' = current_session w"
  by (simp add: current_session_def store_consent_frame)

lemma saveSession_eq:
  "saveSession s w =
     (Inr (), if \<not> store_consent w then w\<lparr>tempSession := Some s\<rparr>
              else if ls_mode w = Available
                   then w\<lparr>ls_sr_session := Some (Json s), tempSession := Some s\<rparr>
                   else w)"
  by (auto simp: saveSession_def hasAnalyticsConsent_eq js_defs setItem_def store_consent_def
           split: storage_mode.splits)

lemma getVisitorId_keeps:
  "\<exists>x w'. getVisitorId w = (Inr x, w') \<and> identity_only w w' \<and>
      ls_sr_session w' = ls_sr_session w \<and> tempSession w' = tempSession w \<and>
      uuid_drawn w \<le> uuid_drawn w' \<and>
      (storage_ok w \<longrightarrow> uuid_drawn w' \<le> Suc (uuid_drawn w))"
  by (auto simp: getVisitorId_def ensureTempVisitorId_def hasAnalyticsConsent_eq js_defs getItem_def
        setItem_def generateUUID_def identity_only_def storage_ok_def
        split: option.splits storage_mode.splits)

lemma createNewSession_ok:
  "\<exists>s w'. createNewSession w = (Inr s, w') \<and> identity_only w w' \<and>
      created_at s = clock w \<and> last_activity_at s = clock w \<and> page_views s = 0 \<and>
      (\<exists>n \<ge> uuid_drawn w. session_id s = uuid_source w n \<and> uuid_drawn w' = Suc n \<and>
          (storage_ok w \<longrightarrow> n \<le> Suc (uuid_drawn w))) \<and>
      (storage_ok w \<longrightarrow> current_session w' = Some s)"
proof -
  obtain v w1 where v: "getVisitorId w = (Inr v, w1)" and id1: "identity_only w w1"
    and d1: "uuid_drawn w \<le> uuid_drawn w1" "storage_ok w \<longrightarrow> uuid_drawn w1 \<le> Suc (uuid_drawn w)"
    using getVisitorId_keeps [of w] by blast
  have ok1: "storage_ok w1 = storage_ok w" using id1 by (rule storage_ok_frame)
  have src: "uuid_source w1 = uuid_source w" "clock w1 = clock w"
    using id1 by (simp_all add: identity_only_def)
  let ?s = "\<lparr> session_id = uuid_source w (uuid_drawn w1), visitor_id = v, created_at = clock w,
               last_activity_at = clock w, page_views = 0 \<rparr>"
  let ?w2 = "w1\<lparr>uuid_drawn := Suc (uuid_drawn w1)\<rparr>"
  have run: "createNewSession w = (Inr ?s, snd (saveSession ?s ?w2))"
    by (simp add: createNewSession_def v js_defs generateUUID_def Let_def src saveSession_eq)
  have id2: "identity_only w (snd (saveSession ?s ?w2))"
    using id1 by (simp add: saveSession_eq identity_only_def)
  have dr: "uuid_drawn (snd (saveSession ?s ?w2)) = Suc (uuid_drawn w1)"
    by (simp add: saveSession_eq)
  have cur: "storage_ok w \<longrightarrow> current_session (snd (saveSession ?s ?w2)) = Some ?s"
    using ok1 by (auto simp: saveSession_eq current_session_def storage_ok_def store_consent_def)
  show ?thesis
    using run id2 dr cur d1 by (intro exI [of _ ?s] exI [of _ "snd (saveSession ?s ?w2)"]) auto
qed

lemma getSessionId_update:
  assumes "current_session w = Some s" "\<not> clock w - last_activity_at s > SESSION_TIMEOUT_MS"
    "storage_ok w"
  shows "\<exists>w'. getSessionId w = (Inr (session_id s), w') \<and> identity_only w w' \<and>
           current_session w' = Some (s\<lparr>last_activity_at := clock w, page_views := page_views s + 1\<rparr>) \<and>
           uuid_drawn w' = uuid_drawn w"
  using assms
  by (auto simp: getSessionId_def getStoredSession_eq isSessionExpired_def updateSessionActivity_def
        saveSession_eq js_defs Let_def identity_only_def current_session_def store_consent_def
        storage_ok_def)

lemma getSessionId_create:
  assumes "current_session w = None \<or>
           (\<exists>s. current_session w = Some s \<and> SESSION_TIMEOUT_MS < clock w - last_activity_at s)"
  shows "\<exists>s' w'. getSessionId w = (Inr (session_id s'), w') \<and> identity_only w w' \<and>
           created_at s' = clock w \<and> last_activity_at s' = clock w \<and> page_views s' = 0 \<and>
           (\<exists>n \<ge> uuid_drawn w. session_id s' = uuid_source w n \<and> uuid_drawn w' = Suc n) \<and>
           (storage_ok w \<longrightarrow> current_session w' = Some s')"
proof -
  obtain s' w' where c: "createNewSession w = (Inr s', w')" and rest: "identity_only w w'"
    "created_at s' = clock w" "last_activity_at s' = clock w" "page_views s' = 0"
    "\<exists>n \<ge> uuid_drawn w. session_id s' = uuid_source w n \<and> uuid_drawn w' = Suc n"
    "storage_ok w \<longrightarrow> current_session w' = Some s'"
    using createNewSession_ok [of w] by blast
  have "getSessionId w = (Inr (session_id s'), w')"
    using assms c
    by (auto simp: getSessionId_def getStoredSession_eq isSessionExpired_def js_defs Let_def)
  with rest show ?thesis by blast
qed

lemma getSessionId_ok: "\<exists>sid w'. getSessionId w = (Inr sid, w') \<and> identity_only w w'"
proof (cases "current_session w")
  case None
  then show ?thesis using getSessionId_create [of w] by blast
next
  case (Some s)
  show ?thesis
  proof (cases "SESSION_TIMEOUT_MS < clock w - last_activity_at s")
    case True
    then show ?thesis using Some getSessionId_create [of w] by blast
  next
    case False
    then show ?thesis using Some
    by (auto simp: getSessionId_def getStoredSession_eq isSessionExpired_def updateSessionActivity_def
        saveSession_eq js_defs Let_def identity_only_def)
  qed
qed

lemma advance_frame:
  "current_session (advance d w) = current_session w" "storage_ok (advance d w) = storage_ok w"
  "clock (advance d w) = clock w + d" "uuid_drawn (advance d w) = uuid_drawn w"
  "uuid_source (advance d w) = uuid_source w" "net (advance d w) = net w"
  by (simp_all add: advance_def current_session_def storage_ok_def store_consent_def)

section \<open>Consent store\<close>

text \<open>
  Claim C8. The consent reads never throw and change nothing. When \<open>localStorage\<close> cannot
  be read, when no consent record is stored, or when the stored text does not parse,
  \<open>getConsentStatus\<close> returns null and both \<open>hasAnalyticsConsent\<close> and
  \<open>hasMarketingConsent\<close> return false.
\<close>

theorem consent_reads_total:
  "(\<exists>r. getConsentStatus w = (Inr r, w)) \<and>
   (\<exists>b. hasAnalyticsConsent w = (Inr b, w)) \<and>
   (\<exists>b. hasMarketingConsent w = (Inr b, w)) \<and>
   (ls_mode w = Blocked \<or> ls_stratos_cookie_consent w = None \<or>
      (\<exists>s. ls_stratos_cookie_consent w = Some (Garbage s)) \<longrightarrow>
    getConsentStatus w = (Inr None, w) \<and>
    hasAnalyticsConsent w = (Inr False, w) \<and>
    hasMarketingConsent w = (Inr False, w))"
  by (auto simp: getConsentStatus_def hasAnalyticsConsent_def hasMarketingConsent_def js_defs
        getItem_def JSON_parse_def
      split: option.splits cell.splits)

theorem consent_reads_total_witness:
  "ls_stratos_cookie_consent (example_page\<lparr>ls_stratos_cookie_consent := Some (Garbage ''{not json'')\<rparr>)
     = Some (Garbage ''{not json'') \<and>
   getConsentStatus (example_page\<lparr>ls_stratos_cookie_consent := Some (Garbage ''{not json'')\<rparr>)
     = (Inr None, example_page\<lparr>ls_stratos_cookie_consent := Some (Garbage ''{not json'')\<rparr>) \<and>
   hasAnalyticsConsent (example_page\<lparr>ls_stratos_cookie_consent := Some (Garbage ''{not json'')\<rparr>)
     = (Inr False, example_page\<lparr>ls_stratos_cookie_consent := Some (Garbage ''{not json'')\<rparr>) \<and>
   hasMarketingConsent (example_page\<lparr>ls_stratos_cookie_consent := Some (Garbage ''{not json'')\<rparr>)
     = (Inr False, example_page\<lparr>ls_stratos_cookie_consent := Some (Garbage ''{not json'')\<rparr>)"
  using consent_reads_total
    [of "example_page\<lparr>ls_stratos_cookie_consent := Some (Garbage ''{not json'')\<rparr>"]
  by simp

section \<open>Sessions\<close>

lemma getSessionId_calls_keep_session:
  assumes "current_session w = Some s" and "storage_ok w"
    and "within_idle_window (last_activity_at s) (clock w) ds"
  shows "\<exists>w' s'. getSessionId_calls ds w = (Inr (replicate (length ds) (session_id s)), w') \<and>
           current_session w' = Some s' \<and> session_id s' = session_id s \<and>
           page_views s' = page_views s + int (length ds)"
  using assms
proof (induction ds arbitrary: w s)
  case Nil
  then show ?case by (simp add: js_return_def)
next
  case (Cons d ds)
  let ?w0 = "advance d w"
  have cur: "current_session ?w0 = Some s" and ok: "storage_ok ?w0"
    using Cons.prems by (simp_all add: advance_frame)
  have live: "\<not> SESSION_TIMEOUT_MS < clock ?w0 - last_activity_at s"
    using Cons.prems(3) by (simp add: advance_frame)
  obtain w1 where step: "getSessionId ?w0 = (Inr (session_id s), w1)" and id1: "identity_only ?w0 w1"
    and cur1: "current_session w1 =
                 Some (s\<lparr>last_activity_at := clock ?w0, page_views := page_views s + 1\<rparr>)"
    using getSessionId_update [OF cur live ok] by blast
  let ?s1 = "s\<lparr>last_activity_at := clock ?w0, page_views := page_views s + 1\<rparr>"
  have ok1: "storage_ok w1" using id1 ok by (simp add: storage_ok_frame)
  have clk: "clock w1 = clock w + d" using id1 by (simp add: identity_only_def advance_frame)
  have win: "within_idle_window (last_activity_at ?s1) (clock w1) ds"
    using Cons.prems(3) clk by (simp add: advance_frame)
  obtain w' s' where rest: "getSessionId_calls ds w1 = (Inr (replicate (length ds) (session_id ?s1)), w')"
    "current_session w' = Some s'" "session_id s' = session_id ?s1"
    "page_views s' = page_views ?s1 + int (length ds)"
    using Cons.IH [OF cur1 ok1 win] by blast
  have "getSessionId_calls (d # ds) w = (Inr (replicate (length (d # ds)) (session_id s)), w')"
    using step rest(1) by (simp add: js_defs)
  moreover have "page_views s' = page_views s + int (length (d # ds))"
    using rest(4) by simp
  ultimately show ?case using rest(2,3) by auto
qed

lemma getSessionId_live:
  assumes "current_session w = Some s" and "\<not> SESSION_TIMEOUT_MS < clock w - last_activity_at s"
  shows "\<exists>w' s'. getSessionId w = (Inr (session_id s), w') \<and> current_session w' = Some s' \<and>
           session_id s' = session_id s \<and> page_views s \<le> page_views s' \<and>
           (\<not> storage_ok w \<longrightarrow> s' = s)"
proof (cases "storage_ok w")
  case True
  from getSessionId_update [OF assms True] True show ?thesis by auto
next
  case False
  then have full: "store_consent w" "ls_mode w \<noteq> Available"
    by (simp_all add: storage_ok_def)
  have "getSessionId w = (Inr (session_id s), w)"
    using assms full
    by (simp add: getSessionId_def getStoredSession_eq isSessionExpired_def
          updateSessionActivity_def saveSession_eq js_defs Let_def)
  with assms(1) False show ?thesis by auto
qed

text \<open>
  Claim C4, as the code has it. Take a stored session that has not expired, with
  \<open>page_views = V\<close>. When the place the session is read from accepts writes (\<open>localStorage\<close>
  under consent; the in-memory session, used without consent, always does), a sequence of
  \<open>N\<close> calls of \<open>getSessionId\<close>, each at most 30 minutes after the activity before it,
  returns the same session id \<open>N\<close> times and leaves the stored session with
  \<open>page_views = V + N\<close>. In every case one call on a session that has not expired returns
  its id and does not lower \<open>page_views\<close>; when the write fails the stored record stays as
  it was.
\<close>

theorem session_kept_within_idle_window:
  assumes "current_session w = Some s"
  shows "(storage_ok w \<and> within_idle_window (last_activity_at s) (clock w) ds \<longrightarrow>
            (\<exists>w' s'. getSessionId_calls ds w = (Inr (replicate (length ds) (session_id s)), w') \<and>
               current_session w' = Some s' \<and> session_id s' = session_id s \<and>
               page_views s' = page_views s + int (length ds))) \<and>
         (\<not> SESSION_TIMEOUT_MS < clock w - last_activity_at s \<longrightarrow>
            (\<exists>w' s'. getSessionId w = (Inr (session_id s), w') \<and> current_session w' = Some s' \<and>
               session_id s' = session_id s \<and> page_views s \<le> page_views s' \<and>
               (\<not> storage_ok w \<longrightarrow> s' = s)))"
  using getSessionId_calls_keep_session [OF assms, of ds] getSessionId_live [OF assms]
  by blast

theorem session_kept_within_idle_window_witness:
  "current_session session_page = Some example_session \<and> storage_ok session_page \<and>
   within_idle_window (last_activity_at example_session) (clock session_page) [1000, 1800000, 60000] \<and>
   fst (getSessionId_calls [1000, 1800000, 60000] session_page)
     = Inr [''session-a'', ''session-a'', ''session-a''] \<and>
   map_option page_views (current_session (snd (getSessionId_calls [1000, 1800000, 60000] session_page)))
     = Some 8 \<and>
   current_session quota_page = Some example_session \<and> \<not> storage_ok quota_page \<and>
   \<not> SESSION_TIMEOUT_MS < clock quota_page - last_activity_at example_session \<and>
   fst (getSessionId quota_page) = Inr ''session-a'' \<and>
   current_session (snd (getSessionId quota_page)) = Some example_session"
proof -
  have a: "current_session session_page = Some example_session"
    by (simp add: current_session_def store_consent_def session_page_def consented_page_def
          example_page_def accept_all_def)
  have b: "storage_ok session_page"
    by (simp add: storage_ok_def session_page_def consented_page_def example_page_def)
  have c: "within_idle_window (last_activity_at example_session) (clock session_page) [1000, 1800000, 60000]"
    by (simp add: example_session_def session_page_def consented_page_def example_page_def
          SESSION_TIMEOUT_MS_def)
  have a': "current_session quota_page = Some example_session"
    by (simp add: current_session_def store_consent_def quota_page_def session_page_def
          consented_page_def example_page_def accept_all_def)
  have b': "\<not> storage_ok quota_page"
    by (simp add: storage_ok_def store_consent_def quota_page_def session_page_def
          consented_page_def example_page_def accept_all_def)
  have c': "\<not> SESSION_TIMEOUT_MS < clock quota_page - last_activity_at example_session"
    by (simp add: example_session_def quota_page_def session_page_def consented_page_def
          example_page_def SESSION_TIMEOUT_MS_def)
  from session_kept_within_idle_window [OF a, of "[1000, 1800000, 60000]"]
       session_kept_within_idle_window [OF a', of "[]"] a b c a' b' c'
  show ?thesis
    by (auto simp: example_session_def)
qed

text \<open>
  With \<open>localStorage\<close> full, three calls within the idle window return the same id and the
  stored \<open>page_views\<close> is still 5, not 8.
\<close>

theorem full_store_keeps_page_views:
  "current_session quota_page = Some example_session \<and> page_views example_session = 5 \<and>
   within_idle_window (last_activity_at example_session) (clock quota_page) [1000, 1000, 1000] \<and>
   fst (getSessionId_calls [1000, 1000, 1000] quota_page)
     = Inr [''session-a'', ''session-a'', ''session-a''] \<and>
   map_option page_views (current_session (snd (getSessionId_calls [1000, 1000, 1000] quota_page)))
     = Some 5 \<and>
   map_option page_views (current_session (snd (getSessionId_calls [1000, 1000, 1000] quota_page)))
     \<noteq> Some 8"
  by (simp add: getSessionId_def getStoredSession_eq isSessionExpired_def
      updateSessionActivity_def saveSession_eq js_defs Let_def advance_def current_session_def
      store_consent_def quota_page_def session_page_def consented_page_def example_page_def
      example_session_def accept_all_def SESSION_TIMEOUT_MS_def)

lemma getSessionId_storage_ok:
  assumes "storage_ok w"
  shows "\<exists>sid w' s'. getSessionId w = (Inr sid, w') \<and> identity_only w w' \<and>
           current_session w' = Some s' \<and> session_id s' = sid \<and> last_activity_at s' = clock w \<and>
           uuid_drawn w \<le> uuid_drawn w' \<and>
           (Some sid = map_option session_id (current_session w) \<or>
            (\<exists>n. uuid_drawn w \<le> n \<and> n < uuid_drawn w' \<and> sid = uuid_source w n))"
proof (cases "current_session w = None \<or>
           (\<exists>s. current_session w = Some s \<and> SESSION_TIMEOUT_MS < clock w - last_activity_at s)")
  case True
  from getSessionId_create [OF True] assms show ?thesis
    by (metis le_imp_less_Suc less_or_eq_imp_le)
next
  case False
  then obtain s where s: "current_session w = Some s"
    "\<not> SESSION_TIMEOUT_MS < clock w - last_activity_at s"
    by auto
  from getSessionId_update [OF s assms] s(1) show ?thesis
    by auto
qed

lemma example_page_facts:
  "storage_ok example_page" "current_session example_page = None" "uuids_fresh example_page"
  "\<not> store_consent example_page"
  by (simp_all add: storage_ok_def current_session_def store_consent_def uuids_fresh_def
        example_page_def inj_def)

text \<open>
  Claim C2, as the code has it. When \<open>getSessionId\<close> finds no session or an expired one
  it creates a session with \<open>page_views = 0\<close> and does not count an activity in that call:
  the stored record has \<open>page_views = 0\<close> right after, and its id is a new draw of the
  generator. So when more than 30 minutes pass between two calls, the second call stores a
  new session with \<open>page_views = 0\<close>, and returns an id different from the first as long
  as the generator does not repeat ids.
\<close>

theorem new_session_starts_at_zero:
  assumes "storage_ok w"
  shows "(current_session w = None \<or>
          (\<exists>s. current_session w = Some s \<and> SESSION_TIMEOUT_MS < clock w - last_activity_at s) \<longrightarrow>
          (\<exists>s' w'. getSessionId w = (Inr (session_id s'), w') \<and> current_session w' = Some s' \<and>
             page_views s' = 0 \<and> (\<exists>n \<ge> uuid_drawn w. session_id s' = uuid_source w n))) \<and>
         (\<forall>d. SESSION_TIMEOUT_MS < d \<longrightarrow>
          (\<exists>id1 w1 s2 w2. getSessionId w = (Inr id1, w1) \<and>
             getSessionId (advance d w1) = (Inr (session_id s2), w2) \<and>
             current_session w2 = Some s2 \<and> page_views s2 = 0 \<and>
             (uuids_fresh w \<longrightarrow> session_id s2 \<noteq> id1)))"
proof (intro conjI impI allI)
  assume "current_session w = None \<or>
          (\<exists>s. current_session w = Some s \<and> SESSION_TIMEOUT_MS < clock w - last_activity_at s)"
  from getSessionId_create [OF this] assms
  show "\<exists>s' w'. getSessionId w = (Inr (session_id s'), w') \<and> current_session w' = Some s' \<and>
             page_views s' = 0 \<and> (\<exists>n \<ge> uuid_drawn w. session_id s' = uuid_source w n)"
    by blast
next
  fix d :: int
  assume d: "SESSION_TIMEOUT_MS < d"
  obtain id1 w1 s1 where c1: "getSessionId w = (Inr id1, w1)" and id1: "identity_only w w1"
    and cur1: "current_session w1 = Some s1" and la: "last_activity_at s1 = clock w"
    and dr1: "uuid_drawn w \<le> uuid_drawn w1"
    and origin: "Some id1 = map_option session_id (current_session w) \<or>
            (\<exists>n. uuid_drawn w \<le> n \<and> n < uuid_drawn w1 \<and> id1 = uuid_source w n)"
    using getSessionId_storage_ok [OF assms] by blast
  have ok1: "storage_ok (advance d w1)"
    using id1 assms by (simp add: advance_frame storage_ok_frame)
  have clk: "clock w1 = clock w" and src: "uuid_source w1 = uuid_source w"
    using id1 by (simp_all add: identity_only_def)
  have expired: "current_session (advance d w1) = None \<or>
      (\<exists>s. current_session (advance d w1) = Some s \<and>
           SESSION_TIMEOUT_MS < clock (advance d w1) - last_activity_at s)"
    using cur1 la d clk by (simp add: advance_frame)
  obtain s2 w2 where c2: "getSessionId (advance d w1) = (Inr (session_id s2), w2)"
    and pv: "page_views s2 = 0"
    and fresh: "\<exists>n \<ge> uuid_drawn (advance d w1). session_id s2 = uuid_source (advance d w1) n"
    and cur2: "storage_ok (advance d w1) \<longrightarrow> current_session w2 = Some s2"
    using getSessionId_create [OF expired] by blast
  obtain n where n: "uuid_drawn w1 \<le> n" "session_id s2 = uuid_source w n"
    using fresh by (auto simp: advance_frame src)
  have "session_id s2 \<noteq> id1" if fr: "uuids_fresh w"
  proof -
    from fr have inj: "inj (uuid_source w)"
      and old: "\<And>k. uuid_drawn w \<le> k \<Longrightarrow> Some (uuid_source w k) \<noteq> map_option session_id (current_session w)"
      by (auto simp: uuids_fresh_def)
    from origin show ?thesis
    proof
      assume "Some id1 = map_option session_id (current_session w)"
      with old [of n] n dr1 show ?thesis by auto
    next
      assume "\<exists>k. uuid_drawn w \<le> k \<and> k < uuid_drawn w1 \<and> id1 = uuid_source w k"
      then obtain k where k: "k < uuid_drawn w1" "id1 = uuid_source w k" by blast
      from inj have "uuid_source w n = uuid_source w k \<Longrightarrow> n = k" by (rule injD)
      with n k show ?thesis by auto
    qed
  qed
  with c1 c2 pv cur2 ok1
  show "\<exists>id1 w1 s2 w2. getSessionId w = (Inr id1, w1) \<and>
             getSessionId (advance d w1) = (Inr (session_id s2), w2) \<and>
             current_session w2 = Some s2 \<and> page_views s2 = 0 \<and>
             (uuids_fresh w \<longrightarrow> session_id s2 \<noteq> id1)"
    by blast
qed

theorem new_session_starts_at_zero_witness:
  "storage_ok example_page \<and> current_session example_page = None \<and> uuids_fresh example_page \<and>
   SESSION_TIMEOUT_MS < 1800001 \<and>
   (\<exists>s' w'. getSessionId example_page = (Inr (session_id s'), w') \<and>
        current_session w' = Some s' \<and> page_views s' = 0) \<and>
   (\<exists>id1 w1 s2 w2. getSessionId example_page = (Inr id1, w1) \<and>
        getSessionId (advance 1800001 w1) = (Inr (session_id s2), w2) \<and>
        current_session w2 = Some s2 \<and> page_views s2 = 0 \<and> session_id s2 \<noteq> id1)"
proof -
  have t: "SESSION_TIMEOUT_MS < 1800001" by (simp add: SESSION_TIMEOUT_MS_def)
  from new_session_starts_at_zero [OF example_page_facts(1)] example_page_facts t
  show ?thesis by blast
qed

text \<open>
  On a page with no session, the stored \<open>page_views\<close> after the first \<open>getSessionId\<close> is
  0, not 1.
\<close>

theorem first_call_leaves_zero_page_views:
  "current_session example_page = None \<and>
   map_option page_views (current_session (snd (getSessionId example_page))) = Some 0 \<and>
   map_option page_views (current_session (snd (getSessionId example_page))) \<noteq> Some 1"
  by (simp add: getSessionId_def getStoredSession_eq createNewSession_def getVisitorId_def
      ensureTempVisitorId_def hasAnalyticsConsent_eq saveSession_eq generateUUID_def js_defs
      current_session_def store_consent_def example_page_def Let_def)

text \<open>
  Claim C9, as the code has it. A temporary visitor id was generated while analytics consent
  was absent; consent is then granted on the same page. If no visitor id is persisted under
  \<open>sr_visitor\<close> and \<open>localStorage\<close> accepts the write, the next \<open>getVisitorId\<close> persists
  that temporary id and returns it, and draws no new UUID. If a visitor id is already
  persisted, the call returns the persisted id and changes nothing.
\<close>

theorem temp_visitor_promoted:
  assumes "\<not> store_consent w" and "getVisitorId w = (Inr t, w1)" and "t \<noteq> []"
    and "store_consent w2" and "tempVisitorId w2 = tempVisitorId w1"
  shows "(falsy_string (ls_sr_visitor w2) \<and> ls_mode w2 = Available \<longrightarrow>
            getVisitorId w2 = (Inr t, w2\<lparr>ls_sr_visitor := Some t\<rparr>)) \<and>
         (\<forall>v. ls_sr_visitor w2 = Some v \<and> v \<noteq> [] \<longrightarrow> getVisitorId w2 = (Inr v, w2))"
proof -
  have "tempVisitorId w1 = Some t"
    using assms(1,2)
    by (auto simp: getVisitorId_def ensureTempVisitorId_def hasAnalyticsConsent_eq js_defs
          generateUUID_def split: option.splits if_splits)
  then have tmp: "tempVisitorId w2 = Some t" using assms(5) by simp
  show ?thesis
    using assms(3,4) tmp
    by (auto simp: getVisitorId_def hasAnalyticsConsent_eq js_defs getItem_def setItem_def
          store_consent_def split: option.splits)
qed

theorem temp_visitor_promoted_witness:
  "\<not> store_consent example_page \<and>
   getVisitorId example_page = (Inr ''uuid-'', snd (getVisitorId example_page)) \<and>
   store_consent (grant_consent (snd (getVisitorId example_page))) \<and>
   falsy_string (ls_sr_visitor (grant_consent (snd (getVisitorId example_page)))) \<and>
   ls_mode (grant_consent (snd (getVisitorId example_page))) = Available \<and>
   getVisitorId (grant_consent (snd (getVisitorId example_page)))
     = (Inr ''uuid-'', (grant_consent (snd (getVisitorId example_page)))\<lparr>ls_sr_visitor := Some ''uuid-''\<rparr>) \<and>
   \<not> store_consent returning_page \<and>
   getVisitorId returning_page = (Inr ''uuid-'', snd (getVisitorId returning_page)) \<and>
   store_consent (grant_consent (snd (getVisitorId returning_page))) \<and>
   ls_sr_visitor (grant_consent (snd (getVisitorId returning_page))) = Some ''visitor-from-before'' \<and>
   getVisitorId (grant_consent (snd (getVisitorId returning_page)))
     = (Inr ''visitor-from-before'', grant_consent (snd (getVisitorId returning_page)))"
proof -
  have run: "getVisitorId example_page
               = (Inr ''uuid-'', example_page\<lparr>uuid_drawn := 1, tempVisitorId := Some ''uuid-''\<rparr>)"
    by (simp add: getVisitorId_def ensureTempVisitorId_def hasAnalyticsConsent_eq js_defs
          generateUUID_def store_consent_def example_page_def)
  have a: "\<not> store_consent example_page" by (rule example_page_facts)
  have b: "getVisitorId example_page = (Inr ''uuid-'', snd (getVisitorId example_page))"
    by (simp add: run)
  have c: "store_consent (grant_consent (snd (getVisitorId example_page)))"
    unfolding run by (simp add: grant_consent_def store_consent_def example_page_def accept_all_def)
  have d: "falsy_string (ls_sr_visitor (grant_consent (snd (getVisitorId example_page))))"
    "ls_mode (grant_consent (snd (getVisitorId example_page))) = Available"
    unfolding run by (simp_all add: grant_consent_def example_page_def)
  have e: "tempVisitorId (grant_consent (snd (getVisitorId example_page)))
             = tempVisitorId (snd (getVisitorId example_page))"
    by (simp add: grant_consent_def)
  have run': "getVisitorId returning_page
               = (Inr ''uuid-'', returning_page\<lparr>uuid_drawn := 1, tempVisitorId := Some ''uuid-''\<rparr>)"
    by (simp add: getVisitorId_def ensureTempVisitorId_def hasAnalyticsConsent_eq js_defs
          generateUUID_def store_consent_def returning_page_def example_page_def)
  have a': "\<not> store_consent returning_page"
    by (simp add: store_consent_def returning_page_def example_page_def)
  have b': "getVisitorId returning_page = (Inr ''uuid-'', snd (getVisitorId returning_page))"
    by (simp add: run')
  have c': "store_consent (grant_consent (snd (getVisitorId returning_page)))"
    unfolding run'
    by (simp add: grant_consent_def store_consent_def returning_page_def example_page_def
          accept_all_def)
  have d': "ls_sr_visitor (grant_consent (snd (getVisitorId returning_page))) = Some ''visitor-from-before''"
    unfolding run' by (simp add: grant_consent_def returning_page_def)
  have e': "tempVisitorId (grant_consent (snd (getVisitorId returning_page)))
             = tempVisitorId (snd (getVisitorId returning_page))"
    by (simp add: grant_consent_def)
  from temp_visitor_promoted [OF a b _ c e] temp_visitor_promoted [OF a' b' _ c' e']
       a b c d a' b' c' d'
  show ?thesis by simp
qed

text \<open>
  With a visitor id persisted on an earlier visit, the call after consent returns the
  persisted id, not the temporary one.
\<close>

theorem persisted_visitor_wins:
  "fst (getVisitorId returning_page) = Inr ''uuid-'' \<and>
   fst (getVisitorId (grant_consent (snd (getVisitorId returning_page)))) = Inr ''visitor-from-before'' \<and>
   fst (getVisitorId (grant_consent (snd (getVisitorId returning_page))))
     \<noteq> fst (getVisitorId returning_page)"
  by (simp add: getVisitorId_def ensureTempVisitorId_def hasAnalyticsConsent_eq js_defs
      generateUUID_def getItem_def store_consent_def grant_consent_def returning_page_def
      example_page_def accept_all_def)

section \<open>Transport\<close>

lemma sendEvent_eq:
  "sendEvent cfg p w =
     (Inr (), w\<lparr>net := net w @ [FetchEvent (apiUrl cfg @ ''/functions/v1/track-event'') (apiKey cfg) p]\<rparr>)"
  by (simp add: sendEvent_def js_defs Let_def)

lemma session_then_visitor:
  "\<exists>sid vid w1 w2. getSessionId w = (Inr sid, w1) \<and> getVisitorId w1 = (Inr vid, w2) \<and>
      identity_only w w2"
proof -
  obtain sid w1 where a: "getSessionId w = (Inr sid, w1)" "identity_only w w1"
    using getSessionId_ok [of w] by blast
  obtain vid w2 where b: "getVisitorId w1 = (Inr vid, w2)" "identity_only w1 w2"
    using getVisitorId_keeps [of w1] by blast
  from a b identity_only_trans show ?thesis by blast
qed

lemma buildEventPayload_ok:
  "\<exists>p w'. buildEventPayload t d w = (Inr p, w') \<and> identity_only w w' \<and>
      event_type p = t \<and> event_data p = d"
proof -
  obtain sid vid w1 w2 where a: "getSessionId w = (Inr sid, w1)" "getVisitorId w1 = (Inr vid, w2)"
    "identity_only w w2"
    using session_then_visitor [of w] by blast
  then show ?thesis
    by (simp add: buildEventPayload_def js_defs)
qed

lemma sendBeacon_ok:
  "\<exists>p w1. identity_only w w1 \<and> event_type p = t \<and> event_data p = d \<and>
      sendBeacon cfg t d w =
        (Inr (), w1\<lparr>net := net w @
            [if has_sendBeacon w
             then BeaconEvent (apiUrl cfg @ ''/functions/v1/track-event'') (apiKey cfg) p
             else FetchEvent (apiUrl cfg @ ''/functions/v1/track-event'') (apiKey cfg) p]\<rparr>)"
proof -
  obtain sid vid w1 w2 where a: "getSessionId w = (Inr sid, w1)" "getVisitorId w1 = (Inr vid, w2)"
    "identity_only w w2"
    using session_then_visitor [of w] by blast
  let ?p = "\<lparr> event_type = t, ev_session_id = sid, ev_visitor_id = vid, page_url = href w2,
               page_title = title w2, referrer = None, property_id = promoted d ''property_id'',
               article_id = promoted d ''article_id'', event_data = d \<rparr>"
  have fr: "net w2 = net w" "has_sendBeacon w2 = has_sendBeacon w"
    using a(3) by (simp_all add: identity_only_def)
  have "sendBeacon cfg t d w =
        (Inr (), w2\<lparr>net := net w @
            [if has_sendBeacon w
             then BeaconEvent (apiUrl cfg @ ''/functions/v1/track-event'') (apiKey cfg) ?p
             else FetchEvent (apiUrl cfg @ ''/functions/v1/track-event'') (apiKey cfg) ?p]\<rparr>)"
    using a(1,2) fr by (simp add: sendBeacon_def js_defs Let_def sendEvent_eq)
  with a(3) show ?thesis
    by (intro exI [of _ ?p] exI [of _ w2]) simp
qed

section \<open>Duration floor\<close>

text \<open>
  Claim C7. \<open>trackPropertyDuration\<close>, called with a start time, sends nothing and changes
  nothing when fewer than 3 whole seconds have elapsed, and otherwise sends exactly one
  \<open>property_view\<close> event (as a beacon, or by \<open>fetch\<close> where the browser has no beacon) whose
  event data carries the elapsed whole seconds as \<open>view_duration_seconds\<close>: nothing after 2
  seconds, one event with \<open>view_duration_seconds: 4\<close> after 4 seconds.
\<close>

theorem property_duration_floor:
  assumes "startTime \<noteq> 0"
  shows "((clock w - startTime) div 1000 < 3 \<longrightarrow>
            trackPropertyDuration cfg propertyId startTime w = (Inr (), w)) \<and>
         (3 \<le> (clock w - startTime) div 1000 \<longrightarrow>
            (\<exists>p w'. trackPropertyDuration cfg propertyId startTime w = (Inr (), w') \<and>
               net w' = net w @
                 [if has_sendBeacon w
                  then BeaconEvent (apiUrl cfg @ ''/functions/v1/track-event'') (apiKey cfg) p
                  else FetchEvent (apiUrl cfg @ ''/functions/v1/track-event'') (apiKey cfg) p] \<and>
               event_type p = ''property_view'' \<and>
               event_data p = Some [(''property_id'', Str propertyId),
                                    (''view_duration_seconds'', Num ((clock w - startTime) div 1000)),
                                    (''page_url'', Str (href w))]))"
proof (intro conjI impI)
  assume "(clock w - startTime) div 1000 < 3"
  then show "trackPropertyDuration cfg propertyId startTime w = (Inr (), w)"
    using assms by (simp add: trackPropertyDuration_def js_defs Let_def)
next
  assume long: "3 \<le> (clock w - startTime) div 1000"
  let ?d = "Some [(''property_id'', Str propertyId),
                  (''view_duration_seconds'', Num ((clock w - startTime) div 1000)),
                  (''page_url'', Str (href w))]"
  obtain p w1 where b: "identity_only w w1" "event_type p = ''property_view''" "event_data p = ?d"
    "sendBeacon cfg ''property_view'' ?d w =
        (Inr (), w1\<lparr>net := net w @
            [if has_sendBeacon w
             then BeaconEvent (apiUrl cfg @ ''/functions/v1/track-event'') (apiKey cfg) p
             else FetchEvent (apiUrl cfg @ ''/functions/v1/track-event'') (apiKey cfg) p]\<rparr>)"
    using sendBeacon_ok [of w "''property_view''" ?d cfg] by blast
  have "trackPropertyDuration cfg propertyId startTime w = sendBeacon cfg ''property_view'' ?d w"
    using assms long by (simp add: trackPropertyDuration_def js_defs Let_def)
  with b show "\<exists>p w'. trackPropertyDuration cfg propertyId startTime w = (Inr (), w') \<and>
               net w' = net w @
                 [if has_sendBeacon w
                  then BeaconEvent (apiUrl cfg @ ''/functions/v1/track-event'') (apiKey cfg) p
                  else FetchEvent (apiUrl cfg @ ''/functions/v1/track-event'') (apiKey cfg) p] \<and>
               event_type p = ''property_view'' \<and>
               event_data p = ?d"
    by (intro exI [of _ p] exI [of _ "w1\<lparr>net := net w @
            [if has_sendBeacon w
             then BeaconEvent (apiUrl cfg @ ''/functions/v1/track-event'') (apiKey cfg) p
             else FetchEvent (apiUrl cfg @ ''/functions/v1/track-event'') (apiKey cfg) p]\<rparr>"]) simp
qed

theorem property_duration_floor_witness:
  "clock example_page - 2000 \<noteq> 0 \<and> clock example_page - 4000 \<noteq> 0 \<and>
   trackPropertyDuration (config example_tracker) ''7'' (clock example_page - 2000) example_page
     = (Inr (), example_page) \<and>
   (\<exists>p w'. trackPropertyDuration (config example_tracker) ''7'' (clock example_page - 4000) example_page
              = (Inr (), w') \<and>
      net w' = [BeaconEvent ''https://api.example/functions/v1/track-event'' ''key'' p] \<and>
      event_type p = ''property_view'' \<and>
      event_data p = Some [(''property_id'', Str ''7''), (''view_duration_seconds'', Num 4),
                           (''page_url'', Str ''https://site.example/property/7'')])"
proof -
  have a: "clock example_page - 2000 \<noteq> 0" "clock example_page - 4000 \<noteq> 0"
    by (simp_all add: example_page_def)
  from property_duration_floor [OF a(1), of example_page "config example_tracker" "''7''"]
       property_duration_floor [OF a(2), of example_page "config example_tracker" "''7''"] a
  show ?thesis
    by (simp add: example_page_def example_tracker_def)
qed

section \<open>Scroll depth\<close>

lemma trackScroll_quiet:
  assumes "find (\<lambda>m. m \<le> p \<and> maxDepth < m) [25, 50, 75, 100] = None \<or> \<not> maxDepth < p"
  shows "trackScroll cfg articleId p maxDepth w = (Inr (max p maxDepth), w)"
  using assms
  by (auto simp: trackScroll_def js_defs Let_def split: option.splits)

lemma trackScroll_fires:
  assumes "find (\<lambda>m. m \<le> p \<and> maxDepth < m) [25, 50, 75, 100] = Some m" and "maxDepth < p"
  shows "\<exists>e w'. trackScroll cfg articleId p maxDepth w = (Inr p, w') \<and> net w' = net w @ [e] \<and>
           scroll_depth_of e = Some (Num m)"
proof -
  let ?d = "Some [(''article_id'', Str articleId), (''scroll_depth'', Num m), (''page_url'', Str (href w))]"
  obtain pl w1 where b: "buildEventPayload ''blog_scroll_depth'' ?d w = (Inr pl, w1)"
    "identity_only w w1" "event_type pl = ''blog_scroll_depth''" "event_data pl = ?d"
    using buildEventPayload_ok [of "''blog_scroll_depth''" ?d w] by blast
  have m: "m \<noteq> 0" using assms(1) by (auto split: if_splits)
  have nw: "net w1 = net w" using b(2) by (simp add: identity_only_def)
  have "trackScroll cfg articleId p maxDepth w =
          (Inr p, w1\<lparr>net := net w @ [FetchEvent (apiUrl cfg @ ''/functions/v1/track-event'') (apiKey cfg) pl]\<rparr>)"
    using assms m b(1) nw by (simp add: trackScroll_def js_defs Let_def sendEvent_eq)
  moreover have "scroll_depth_of (FetchEvent (apiUrl cfg @ ''/functions/v1/track-event'') (apiKey cfg) pl)
                   = Some (Num m)"
    using b(3,4) by (simp add: obj_get_def)
  ultimately show ?thesis by auto
qed

text \<open>
  Claim C3 expects the scroll-percentage sequence 10, 30, 60, 40, 100 to send exactly three
  scroll-depth events, with milestones 25, 50 and 100. The listener, whose comment reads
  "Track milestone depths (25%, 50%, 75%, 100%)", sends exactly three events with milestones
  25, 50 and 75, on every page and for every config: nothing is sent again on the way back to
  40, but on the jump from 60 to 100 \<open>milestones.find\<close> picks the lowest milestone not yet
  passed, 75, and the depth is then recorded as 100, so that milestone 100 is never sent.
\<close>

theorem scroll_milestones_sent:
  "\<exists>e1 e2 e3 w'. scrollTo cfg articleId [10, 30, 60, 40, 100] 0 w = (Inr 100, w') \<and>
      net w' = net w @ [e1, e2, e3] \<and>
      scroll_depth_of e1 = Some (Num 25) \<and> scroll_depth_of e2 = Some (Num 50) \<and>
      scroll_depth_of e3 = Some (Num 75)"
proof -
  have s1: "trackScroll cfg articleId 10 0 w = (Inr 10, w)"
    using trackScroll_quiet [of 10 0 cfg articleId w] by simp
  obtain e1 w2 where s2: "trackScroll cfg articleId 30 10 w = (Inr 30, w2)" "net w2 = net w @ [e1]"
    "scroll_depth_of e1 = Some (Num 25)"
    using trackScroll_fires [of 30 10 25 cfg articleId w] by auto
  obtain e2 w3 where s3: "trackScroll cfg articleId 60 30 w2 = (Inr 60, w3)" "net w3 = net w2 @ [e2]"
    "scroll_depth_of e2 = Some (Num 50)"
    using trackScroll_fires [of 60 30 50 cfg articleId w2] by auto
  have s4: "trackScroll cfg articleId 40 60 w3 = (Inr 60, w3)"
    using trackScroll_quiet [of 40 60 cfg articleId w3] by simp
  obtain e3 w5 where s5: "trackScroll cfg articleId 100 60 w3 = (Inr 100, w5)" "net w5 = net w3 @ [e3]"
    "scroll_depth_of e3 = Some (Num 75)"
    using trackScroll_fires [of 100 60 75 cfg articleId w3] by auto
  have "scrollTo cfg articleId [10, 30, 60, 40, 100] 0 w = (Inr 100, w5)"
    by (simp add: js_defs s1 s2(1) s3(1) s4 s5(1))
  moreover have "net w5 = net w @ [e1, e2, e3]"
    by (simp add: s2(2) s3(2) s5(2))
  ultimately show ?thesis using s2(3) s3(3) s5(3) by blast
qed

text \<open>
  On a consented page the sequence sends 25, 50, 75 and not 25, 50, 100; a single jump from the
  top of the page to its end sends milestone 25 alone.
\<close>

theorem scroll_jump_reports_75:
  "scroll_depths_sent (net (snd (scrollTo (config example_tracker) ''post-1'' [10, 30, 60, 40, 100] 0 consented_page)))
     = [Num 25, Num 50, Num 75] \<and>
   scroll_depths_sent (net (snd (scrollTo (config example_tracker) ''post-1'' [10, 30, 60, 40, 100] 0 consented_page)))
     \<noteq> [Num 25, Num 50, Num 100] \<and>
   scroll_depths_sent (net (snd (scrollTo (config example_tracker) ''post-1'' [100] 0 consented_page)))
     = [Num 25]"
  by (simp add: trackScroll_def buildEventPayload_def sendEvent_eq getSessionId_def
      getStoredSession_eq createNewSession_def updateSessionActivity_def isSessionExpired_def
      getVisitorId_def ensureTempVisitorId_def hasAnalyticsConsent_eq saveSession_eq
      generateUUID_def getItem_def setItem_def js_defs Let_def promoted_def obj_get_def
      current_session_def store_consent_def consented_page_def example_page_def
      example_tracker_def accept_all_def SESSION_TIMEOUT_MS_def scroll_depths_sent_def
      List.map_filter_def)

section \<open>Search store-and-forward\<close>

lemma trackEvent_denied:
  "\<not> (trackingEnabled (config (StratosTracker w)) \<and> consentGiven (StratosTracker w)) \<Longrightarrow>
     StratosTracker_trackEvent t d w = (Inr (), w)"
  by (simp add: StratosTracker_trackEvent_def canTrack_def js_defs)

lemma trackEvent_allowed:
  assumes "trackingEnabled (config (StratosTracker w))" "consentGiven (StratosTracker w)"
  shows "\<exists>p w1. identity_only w w1 \<and> event_type p = t \<and> event_data p = d \<and>
           StratosTracker_trackEvent t d w =
             (Inr (), w1\<lparr>net := net w @
                [FetchEvent (apiUrl (config (StratosTracker w)) @ ''/functions/v1/track-event'')
                   (apiKey (config (StratosTracker w))) p]\<rparr>)"
proof -
  obtain p w1 where b: "buildEventPayload t d w = (Inr p, w1)" "identity_only w w1"
    "event_type p = t" "event_data p = d"
    using buildEventPayload_ok [of t d w] by blast
  have fr: "net w1 = net w" "StratosTracker w1 = StratosTracker w"
    using b(2) by (simp_all add: identity_only_def)
  have "StratosTracker_trackEvent t d w =
          (Inr (), w1\<lparr>net := net w @
                [FetchEvent (apiUrl (config (StratosTracker w)) @ ''/functions/v1/track-event'')
                   (apiKey (config (StratosTracker w))) p]\<rparr>)"
    using assms b(1) fr
    by (simp add: StratosTracker_trackEvent_def canTrack_def this_config_def js_defs sendEvent_eq)
  with b show ?thesis by blast
qed

lemma storeSearchForTracking_eq:
  "ss_mode w = Available \<Longrightarrow>
     storeSearchForTracking X w =
       (Inr (), w\<lparr>ss_stratos_pending_search :=
                    Some (Json (stringified (trackingData_literal X (clock w) (pathname w))))\<rparr>)"
  by (simp add: storeSearchForTracking_def js_defs setItem_def Let_def)

lemma sendPending_fresh:
  assumes "ss_mode w = Available" "ss_stratos_pending_search w = Some (Json r)"
    "\<not> 30000 < clock w - timestamp r" "window_StratosTracker w"
  shows "sendPendingSearchEvent fmt w =
           (Inr True, snd (StratosTracker_trackEvent ''search''
                             (Some (search_event_data fmt r (clock w)))
                             (w\<lparr>ss_stratos_pending_search := None\<rparr>)))"
proof (cases "trackingEnabled (config (StratosTracker w)) \<and> consentGiven (StratosTracker w)")
  case True
  let ?w0 = "w\<lparr>ss_stratos_pending_search := None\<rparr>"
  from True have "trackingEnabled (config (StratosTracker ?w0))" "consentGiven (StratosTracker ?w0)"
    by simp_all
  from trackEvent_allowed [OF this, of "''search''" "Some (search_event_data fmt r (clock w))"]
  obtain w9 where "StratosTracker_trackEvent ''search'' (Some (search_event_data fmt r (clock w))) ?w0
                     = (Inr (), w9)"
    by blast
  then show ?thesis
    using assms
    by (simp add: sendPendingSearchEvent_def js_defs getItem_def removeItem_def JSON_parse_def)
next
  case False
  then have "StratosTracker_trackEvent ''search'' (Some (search_event_data fmt r (clock w)))
               (w\<lparr>ss_stratos_pending_search := None\<rparr>) = (Inr (), w\<lparr>ss_stratos_pending_search := None\<rparr>)"
    by (intro trackEvent_denied) simp
  then show ?thesis
    using assms
    by (simp add: sendPendingSearchEvent_def js_defs getItem_def removeItem_def JSON_parse_def)
qed

lemma sendPending_none:
  "ss_stratos_pending_search w = None \<Longrightarrow> sendPendingSearchEvent fmt w = (Inr False, w)"
  by (simp add: sendPendingSearchEvent_def js_defs getItem_def)

lemma sendPending_stale:
  assumes "ss_stratos_pending_search w = Some (Json r)" "30000 < clock w - timestamp r"
  shows "\<exists>w'. sendPendingSearchEvent fmt w = (Inr False, w') \<and> net w' = net w"
  using assms
  by (simp add: sendPendingSearchEvent_def js_defs getItem_def removeItem_def JSON_parse_def)


text \<open>
  Claim C5, as the code has it. On a page where \<open>window.StratosTracker\<close> is installed with
  tracking enabled and consent given, and where \<open>sessionStorage\<close> accepts the write,
  \<open>storeSearchForTracking(X)\<close> followed at most 30 seconds later by
  \<open>sendPendingSearchEvent()\<close> sends exactly one \<open>search\<close> event, built from the record
  stored for \<open>X\<close> and carrying the elapsed time as \<open>tracking_delay_ms\<close>, and resolves true;
  a second call right after sends nothing and resolves false.
\<close>

theorem pending_search_sent_once:
  assumes "ss_mode w = Available" and "window_StratosTracker w"
    and "trackingEnabled (config (StratosTracker w))" and "consentGiven (StratosTracker w)"
    and "d \<le> 30000"
  shows "\<exists>w1 p w2. storeSearchForTracking X w = (Inr (), w1) \<and>
           sendPendingSearchEvent fmt (advance d w1) = (Inr True, w2) \<and>
           net w2 = net w @
             [FetchEvent (apiUrl (config (StratosTracker w)) @ ''/functions/v1/track-event'')
                (apiKey (config (StratosTracker w))) p] \<and>
           event_type p = ''search'' \<and>
           event_data p =
             Some (search_event_data fmt
                     (stringified (trackingData_literal X (clock w) (pathname w))) (clock w + d)) \<and>
           map_option (\<lambda>e. obj_get e ''tracking_delay_ms'') (event_data p) = Some (Num d) \<and>
           sendPendingSearchEvent fmt w2 = (Inr False, w2)"
proof -
  let ?r = "stringified (trackingData_literal X (clock w) (pathname w))"
  let ?w1 = "w\<lparr>ss_stratos_pending_search := Some (Json ?r)\<rparr>"
  let ?w0 = "(advance d ?w1)\<lparr>ss_stratos_pending_search := None\<rparr>"
  let ?e = "search_event_data fmt ?r (clock w + d)"
  have st: "storeSearchForTracking X w = (Inr (), ?w1)"
    using assms(1) by (rule storeSearchForTracking_eq)
  have ts: "timestamp ?r = clock w"
    by (simp add: stringified_def trackingData_literal_def)
  have pre: "ss_mode (advance d ?w1) = Available"
    "ss_stratos_pending_search (advance d ?w1) = Some (Json ?r)"
    "\<not> 30000 < clock (advance d ?w1) - timestamp ?r" "window_StratosTracker (advance d ?w1)"
    "clock (advance d ?w1) = clock w + d"
    using assms(1,2,5) ts by (simp_all add: advance_def)
  have allowed: "trackingEnabled (config (StratosTracker ?w0))" "consentGiven (StratosTracker ?w0)"
    using assms(3,4) by (simp_all add: advance_def)
  obtain p w9 where ev: "identity_only ?w0 w9" "event_type p = ''search''" "event_data p = Some ?e"
    "StratosTracker_trackEvent ''search'' (Some ?e) ?w0 =
       (Inr (), w9\<lparr>net := net ?w0 @
           [FetchEvent (apiUrl (config (StratosTracker ?w0)) @ ''/functions/v1/track-event'')
              (apiKey (config (StratosTracker ?w0))) p]\<rparr>)"
    using trackEvent_allowed [OF allowed, of "''search''" "Some ?e"] by blast
  let ?w2 = "w9\<lparr>net := net ?w0 @
           [FetchEvent (apiUrl (config (StratosTracker ?w0)) @ ''/functions/v1/track-event'')
              (apiKey (config (StratosTracker ?w0))) p]\<rparr>"
  have snd1: "sendPendingSearchEvent fmt (advance d ?w1) = (Inr True, ?w2)"
    using sendPending_fresh [OF pre(1,2,3,4), of fmt] ev(4) by (simp add: pre(5))
  have gone: "ss_stratos_pending_search ?w2 = None"
    using ev(1) by (simp add: identity_only_def)
  have snd2: "sendPendingSearchEvent fmt ?w2 = (Inr False, ?w2)"
    using gone by (rule sendPending_none)
  have nets: "net ?w2 = net w @
             [FetchEvent (apiUrl (config (StratosTracker w)) @ ''/functions/v1/track-event'')
                (apiKey (config (StratosTracker w))) p]"
    by (simp add: advance_def)
  have delay: "map_option (\<lambda>e. obj_get e ''tracking_delay_ms'') (event_data p) = Some (Num d)"
    by (simp add: ev(3) search_event_data_def obj_get_def ts)
  show ?thesis
    using st snd1 nets ev(2,3) delay snd2
    by (intro exI [of _ ?w1] exI [of _ p] exI [of _ ?w2]) simp
qed

theorem pending_search_sent_once_witness:
  "ss_mode consented_page = Available \<and> window_StratosTracker consented_page \<and>
   trackingEnabled (config (StratosTracker consented_page)) \<and>
   consentGiven (StratosTracker consented_page) \<and> (0::int) \<le> 30000 \<and>
   (\<exists>w1 p w2. storeSearchForTracking example_search consented_page = (Inr (), w1) \<and>
        sendPendingSearchEvent example_format (advance 0 w1) = (Inr True, w2) \<and>
        net w2 = [FetchEvent ''https://api.example/functions/v1/track-event'' ''key'' p] \<and>
        event_type p = ''search'' \<and>
        map_option (\<lambda>e. obj_get e ''tracking_delay_ms'') (event_data p) = Some (Num 0) \<and>
        sendPendingSearchEvent example_format w2 = (Inr False, w2))"
proof -
  have a: "ss_mode consented_page = Available" "window_StratosTracker consented_page"
    "trackingEnabled (config (StratosTracker consented_page))"
    "consentGiven (StratosTracker consented_page)" "(0::int) \<le> 30000"
    by (simp_all add: consented_page_def example_page_def example_tracker_def)
  have b: "net consented_page = []"
    "apiUrl (config (StratosTracker consented_page)) = ''https://api.example''"
    "apiKey (config (StratosTracker consented_page)) = ''key''"
    by (simp_all add: consented_page_def example_page_def example_tracker_def)
  from pending_search_sent_once [OF a, of example_search example_format]
  obtain w1 p w2 where "storeSearchForTracking example_search consented_page = (Inr (), w1)"
    "sendPendingSearchEvent example_format (advance 0 w1) = (Inr True, w2)"
    "net w2 = [FetchEvent ''https://api.example/functions/v1/track-event'' ''key'' p]"
    "event_type p = ''search''"
    "map_option (\<lambda>e. obj_get e ''tracking_delay_ms'') (event_data p) = Some (Num 0)"
    "sendPendingSearchEvent example_format w2 = (Inr False, w2)"
    unfolding b by auto
  with a show ?thesis by blast
qed

text \<open>
  Without consent the stored search is consumed and the call resolves true, but no request
  leaves the page.
\<close>

theorem pending_search_not_sent_without_consent:
  "fst (sendPendingSearchEvent example_format (snd (storeSearchForTracking example_search example_page)))
     = Inr True \<and>
   net (snd (sendPendingSearchEvent example_format (snd (storeSearchForTracking example_search example_page))))
     = []"
  by (simp add: sendPendingSearchEvent_def storeSearchForTracking_def StratosTracker_trackEvent_def
      canTrack_def js_defs getItem_def setItem_def removeItem_def JSON_parse_def Let_def
      stringified_def trackingData_literal_def example_page_def example_tracker_def)

text \<open>
  Claim C6. When the pending search record is more than 30 seconds old,
  \<open>sendPendingSearchEvent\<close> sends nothing and resolves false, without throwing: so does a
  call made more than 30 seconds (31 seconds, say) after \<open>storeSearchForTracking\<close> stored
  the record.
\<close>

theorem stale_pending_search_dropped:
  "(\<forall>r. ss_stratos_pending_search w = Some (Json r) \<and> 30000 < clock w - timestamp r \<longrightarrow>
        (\<exists>w'. sendPendingSearchEvent fmt w = (Inr False, w') \<and> net w' = net w)) \<and>
   (ss_mode w = Available \<and> 30000 < d \<longrightarrow>
        (\<exists>w'. sendPendingSearchEvent fmt (advance d (snd (storeSearchForTracking X w))) = (Inr False, w') \<and>
              net w' = net w))"
proof (intro conjI allI impI)
  fix r
  assume "ss_stratos_pending_search w = Some (Json r) \<and> 30000 < clock w - timestamp r"
  then show "\<exists>w'. sendPendingSearchEvent fmt w = (Inr False, w') \<and> net w' = net w"
    using sendPending_stale by blast
next
  assume a: "ss_mode w = Available \<and> 30000 < d"
  let ?r = "stringified (trackingData_literal X (clock w) (pathname w))"
  let ?w1 = "advance d (w\<lparr>ss_stratos_pending_search := Some (Json ?r)\<rparr>)"
  have "ss_stratos_pending_search ?w1 = Some (Json ?r)" "30000 < clock ?w1 - timestamp ?r"
    using a by (simp_all add: advance_def stringified_def trackingData_literal_def)
  from sendPending_stale [OF this, of fmt]
  show "\<exists>w'. sendPendingSearchEvent fmt (advance d (snd (storeSearchForTracking X w))) = (Inr False, w') \<and>
              net w' = net w"
    using a by (simp add: storeSearchForTracking_eq advance_def)
qed

theorem stale_pending_search_dropped_witness:
  "ss_stratos_pending_search (consented_page\<lparr>ss_stratos_pending_search := Some (Json example_search)\<rparr>)
     = Some (Json example_search) \<and>
   30000 < clock (consented_page\<lparr>ss_stratos_pending_search := Some (Json example_search)\<rparr>)
             - timestamp example_search \<and>
   (\<exists>w'. sendPendingSearchEvent example_format
            (consented_page\<lparr>ss_stratos_pending_search := Some (Json example_search)\<rparr>) = (Inr False, w') \<and>
         net w' = net (consented_page\<lparr>ss_stratos_pending_search := Some (Json example_search)\<rparr>)) \<and>
   ss_mode consented_page = Available \<and> (30000::int) < 31000 \<and>
   (\<exists>w'. sendPendingSearchEvent example_format
            (advance 31000 (snd (storeSearchForTracking example_search consented_page))) = (Inr False, w') \<and>
         net w' = net consented_page)"
proof -
  let ?w = "consented_page\<lparr>ss_stratos_pending_search := Some (Json example_search)\<rparr>"
  have a: "ss_mode consented_page = Available"
    by (simp add: consented_page_def example_page_def)
  have b: "ss_stratos_pending_search ?w = Some (Json example_search)"
    "30000 < clock ?w - timestamp example_search"
    by (simp_all add: consented_page_def example_page_def example_search_def)
  from stale_pending_search_dropped [of consented_page example_format 31000 example_search]
       stale_pending_search_dropped [of ?w example_format 0 example_search] a b
  show ?thesis by simp
qed

section \<open>Favourites\<close>

lemma toggleFavourite_ok:
  "\<exists>r w'. toggleFavourite cfg propertyId source resp w = (Inr r, w') \<and>
      (resp = Rejected \<or> (\<exists>body. resp = Response False body) \<longrightarrow>
         r = \<lparr> is_favourited = Bool False, count = Num 0 \<rparr>) \<and>
      (resp = Response True (Some (Obj [(''is_favourited'', Bool False), (''count'', Num 0)])) \<longrightarrow>
         r = \<lparr> is_favourited = Bool False, count = Num 0 \<rparr>)"
proof -
  obtain vid w1 where v: "getVisitorId w = (Inr vid, w1)"
    using getVisitorId_keeps [of w] by blast
  obtain sid w2 where s: "getSessionId w1 = (Inr sid, w2)"
    using getSessionId_ok [of w1] by blast
  let ?w3 = "w2\<lparr>net := net w2 @
                [FetchToggleFavourite (apiUrl cfg @ ''/functions/v1/toggle-favourite'')
                   (apiKey cfg) vid sid propertyId source]\<rparr>"
  let ?d = "Some [(''property_id'', Str propertyId), (''source'', Str source)]"
  have bp: "\<exists>p w4. buildEventPayload t ?d ?w3 = (Inr p, w4)" for t
    using buildEventPayload_ok [of t ?d ?w3] by blast
  show ?thesis
  proof (cases resp)
    case Rejected
    then show ?thesis
      by (simp add: toggleFavourite_def toggleFavourite_try_def v s js_defs)
  next
    case (Response ok body)
    show ?thesis
    proof (cases ok)
      case False
      then show ?thesis using Response
        by (cases body) (simp_all add: toggleFavourite_def toggleFavourite_try_def v s js_defs response_json_def)
    next
      case True
      show ?thesis
      proof (cases body)
        case None
        then show ?thesis using Response True
          by (simp add: toggleFavourite_def toggleFavourite_try_def v s js_defs response_json_def)
      next
        case (Some result)
        obtain p1 w41 where b1: "buildEventPayload ''property_favourited'' ?d ?w3 = (Inr p1, w41)"
          using bp by blast
        obtain p2 w42 where b2: "buildEventPayload ''property_unfavourited'' ?d ?w3 = (Inr p2, w42)"
          using bp by blast
        show ?thesis using Response True Some b1 b2
          by (cases result)
             (simp_all add: toggleFavourite_def toggleFavourite_try_def v s js_defs response_json_def js_field_def
                sendEvent_eq obj_get_def js_or_def)
      qed
    qed
  qed
qed

text \<open>
  With no session text, or the text of a session record, under \<open>sr_session\<close> the facade's
  \<open>toggleFavourite\<close> always resolves. When tracking is not allowed, when the request fails,
  or when the response is not ok, it resolves with \<open>{ is_favourited: false, count: 0 }\<close>; a
  successful response saying "not favourited, no favourites" resolves with the same value.
\<close>

lemma toggleFavourite_resolves:
  "\<exists>r w'. StratosTracker_toggleFavourite propertyId source resp w = (Inr r, w') \<and>
      (\<not> (trackingEnabled (config (StratosTracker w)) \<and> consentGiven (StratosTracker w)) \<or>
       resp = Rejected \<or> (\<exists>body. resp = Response False body) \<longrightarrow>
         r = \<lparr> is_favourited = Bool False, count = Num 0 \<rparr>) \<and>
      (resp = Response True (Some (Obj [(''is_favourited'', Bool False), (''count'', Num 0)])) \<longrightarrow>
         r = \<lparr> is_favourited = Bool False, count = Num 0 \<rparr>)"
proof (cases "trackingEnabled (config (StratosTracker w)) \<and> consentGiven (StratosTracker w)")
  case False
  then show ?thesis
    by (simp add: StratosTracker_toggleFavourite_def canTrack_def js_defs)
next
  case True
  then have "StratosTracker_toggleFavourite propertyId source resp w =
               toggleFavourite (config (StratosTracker w)) propertyId
                 (case source of None \<Rightarrow> ''unknown'' | Some s \<Rightarrow> s) resp w"
    by (simp add: StratosTracker_toggleFavourite_def canTrack_def this_config_def js_defs)
  with True toggleFavourite_ok [of "config (StratosTracker w)" propertyId
         "case source of None \<Rightarrow> ''unknown'' | Some s \<Rightarrow> s" resp w]
  show ?thesis by simp
qed




section \<open>Consent check of the facade\<close>

lemmas session_defs = getSessionId_def getStoredSession_eq createNewSession_def
  updateSessionActivity_def isSessionExpired_def getVisitorId_def ensureTempVisitorId_def
  hasAnalyticsConsent_eq saveSession_eq generateUUID_def getItem_def setItem_def removeItem_def
  current_session_def store_consent_def SESSION_TIMEOUT_MS_def

lemmas page_defs = consented_page_def example_page_def example_tracker_def accept_all_def

lemmas setup_defs = StratosTracker_setTrackingEnabled_def
  StratosTracker_setupPropertyDurationTracking_def setupPropertyDurationTracking_def
  StratosTracker_setupBlogDurationTracking_def setupBlogDurationTracking_def
  setupScrollDepthTracking_def addEventListener_def removeEventListener_def set_this_def
  this_config_def advance_def

text \<open>The methods that start with the \<open>canTrack()\<close> test change nothing when it fails.\<close>

lemma guarded_methods_do_nothing:
  assumes "\<not> (trackingEnabled (config (StratosTracker w)) \<and> consentGiven (StratosTracker w))"
  shows "StratosTracker_trackEvent eventType eventData w = (Inr (), w)"
    and "StratosTracker_trackPropertyView propertyId additionalData w = (Inr (), w)"
    and "StratosTracker_trackBlogView articleId additionalData w = (Inr (), w)"
    and "StratosTracker_toggleFavourite propertyId source resp w
           = (Inr \<lparr> is_favourited = Bool False, count = Num 0 \<rparr>, w)"
  using assms
  by (simp_all add: StratosTracker_trackEvent_def StratosTracker_trackPropertyView_def
      StratosTracker_trackBlogView_def StratosTracker_toggleFavourite_def canTrack_def js_defs)

text \<open>
  Claim C1 asks that every public tracking method of the facade does nothing (builds no
  event, sends no request, persists no session or visitor data) when tracking is disabled or
  consent has not been given. The methods guarded by \<open>canTrack()\<close> do nothing then, as
  \<open>trackEvent\<close> shows. The duration and session-end methods are not guarded by consent, and
  the two setup methods are not guarded at all. On a page without any consent:
  \<open>trackSessionEnd\<close> sends a request; \<open>trackPropertyDuration\<close> and \<open>trackBlogDuration\<close>
  send a request once a setup method has set the start time; with tracking disabled as well,
  the listeners registered by \<open>setupPropertyDurationTracking\<close> and
  \<open>setupBlogDurationTracking\<close> send a request on page hide and on scroll. And when the
  facade's consent flag was cleared by \<open>setConsent(false)\<close> while the accepting consent record
  is still stored, \<open>trackSessionEnd\<close> persists a session and a visitor id.
\<close>

theorem duration_methods_send_without_consent:
  "\<not> consentGiven (StratosTracker example_page) \<and> \<not> store_consent example_page \<and>
   net example_page = [] \<and>
   StratosTracker_trackEvent ''cta_click'' None example_page = (Inr (), example_page) \<and>
   length (net (snd (StratosTracker_trackSessionEnd None example_page))) = 1 \<and>
   length (net (snd (StratosTracker_trackPropertyDuration ''7''
      (advance 4000 (snd (StratosTracker_setupPropertyDurationTracking ''7'' example_page)))))) = 1 \<and>
   length (net (snd (StratosTracker_trackBlogDuration ''post-1''
      (advance 6000 (snd (StratosTracker_setupBlogDurationTracking ''post-1'' example_page)))))) = 1 \<and>
   \<not> trackingEnabled (config (StratosTracker (snd (StratosTracker_setTrackingEnabled False example_page)))) \<and>
   length (net (snd (dispatchEvent Pagehide
      (advance 4000 (snd (StratosTracker_setupPropertyDurationTracking ''7''
         (snd (StratosTracker_setTrackingEnabled False example_page)))))))) = 1 \<and>
   length (net (snd (scroll_page_to 30
      (snd (StratosTracker_setupBlogDurationTracking ''post-1''
         (snd (StratosTracker_setTrackingEnabled False example_page))))))) = 1 \<and>
   \<not> consentGiven (StratosTracker (snd (StratosTracker_setConsent False consented_page))) \<and>
   ls_sr_session (snd (StratosTracker_setConsent False consented_page)) = None \<and>
   ls_sr_session (snd (StratosTracker_trackSessionEnd None
      (snd (StratosTracker_setConsent False consented_page)))) \<noteq> None \<and>
   ls_sr_visitor (snd (StratosTracker_trackSessionEnd None
      (snd (StratosTracker_setConsent False consented_page)))) \<noteq> None"
proof -
  have a: "\<not> consentGiven (StratosTracker example_page)" "\<not> store_consent example_page"
    "net example_page = []"
    by (simp_all add: page_defs store_consent_def)
  have b: "StratosTracker_trackEvent ''cta_click'' None example_page = (Inr (), example_page)"
    by (simp add: StratosTracker_trackEvent_def canTrack_def js_defs page_defs)
  have c: "length (net (snd (StratosTracker_trackSessionEnd None example_page))) = 1"
    by (simp add: StratosTracker_trackSessionEnd_def trackSessionEnd_def sendBeacon_def
        session_defs js_defs Let_def page_defs obj_spread_def)
  have d: "length (net (snd (StratosTracker_trackPropertyDuration ''7''
      (advance 4000 (snd (StratosTracker_setupPropertyDurationTracking ''7'' example_page)))))) = 1"
    by (simp add: StratosTracker_trackPropertyDuration_def trackPropertyDuration_def setup_defs
        sendBeacon_def session_defs js_defs Let_def page_defs)
  have e: "length (net (snd (StratosTracker_trackBlogDuration ''post-1''
      (advance 6000 (snd (StratosTracker_setupBlogDurationTracking ''post-1'' example_page)))))) = 1"
    by (simp add: StratosTracker_trackBlogDuration_def trackBlogDuration_def setup_defs
        sendBeacon_def session_defs js_defs Let_def page_defs)
  have f: "\<not> trackingEnabled (config (StratosTracker (snd (StratosTracker_setTrackingEnabled False example_page))))"
    by (simp add: setup_defs js_defs)
  have g: "length (net (snd (dispatchEvent Pagehide
      (advance 4000 (snd (StratosTracker_setupPropertyDurationTracking ''7''
         (snd (StratosTracker_setTrackingEnabled False example_page)))))))) = 1"
    by (simp add: dispatchEvent_def run_handler_def trackPropertyDuration_def setup_defs
        sendBeacon_def session_defs js_defs Let_def page_defs)
  have h: "length (net (snd (scroll_page_to 30
      (snd (StratosTracker_setupBlogDurationTracking ''post-1''
         (snd (StratosTracker_setTrackingEnabled False example_page))))))) = 1"
    by (simp add: scroll_page_to_def dispatchEvent_def run_handler_def getMaxScrollDepth_def
        setMaxScrollDepth_def trackScroll_def buildEventPayload_def sendEvent_eq setup_defs
        session_defs js_defs Let_def page_defs)
  have i: "\<not> consentGiven (StratosTracker (snd (StratosTracker_setConsent False consented_page)))"
    "ls_sr_session (snd (StratosTracker_setConsent False consented_page)) = None"
    by (simp_all add: StratosTracker_setConsent_def clearAllTrackingData_def set_this_def
        removeItem_def js_defs page_defs)
  have j: "ls_sr_session (snd (StratosTracker_trackSessionEnd None
      (snd (StratosTracker_setConsent False consented_page)))) \<noteq> None"
    "ls_sr_visitor (snd (StratosTracker_trackSessionEnd None
      (snd (StratosTracker_setConsent False consented_page)))) \<noteq> None"
    by (simp_all add: StratosTracker_setConsent_def clearAllTrackingData_def set_this_def
        StratosTracker_trackSessionEnd_def trackSessionEnd_def sendBeacon_def
        session_defs js_defs Let_def page_defs obj_spread_def)
  from a b c d e f g h i j show ?thesis by simp
qed

text \<open>
  At these inputs the guards the methods do have are passed: tracking is enabled and the
  start time is set, and the request leaves the page all the same.
\<close>

theorem duration_methods_send_without_consent_witness:
  "trackingEnabled (config (StratosTracker example_page)) \<and>
   \<not> consentGiven (StratosTracker example_page) \<and>
   propertyViewStartTime (StratosTracker
      (advance 4000 (snd (StratosTracker_setupPropertyDurationTracking ''7'' example_page)))) \<noteq> 0 \<and>
   length (net (snd (StratosTracker_trackPropertyDuration ''7''
      (advance 4000 (snd (StratosTracker_setupPropertyDurationTracking ''7'' example_page)))))) = 1 \<and>
   length (net (snd (StratosTracker_trackSessionEnd None example_page))) = 1"
proof -
  have "trackingEnabled (config (StratosTracker example_page))"
    by (simp add: page_defs)
  moreover have "propertyViewStartTime (StratosTracker
      (advance 4000 (snd (StratosTracker_setupPropertyDurationTracking ''7'' example_page)))) \<noteq> 0"
    by (simp add: setup_defs js_defs page_defs)
  ultimately show ?thesis
    using duration_methods_send_without_consent by simp
qed

end
